theory Spec2Isabelle
  imports Complex_Main "HOL-Library.Sublist"
begin

section \<open>Tool contracts (types.ts)\<close>

text \<open>
  A JavaScript string is a sequence of UTF-16 code units; \<open>length\<close>, \<open>slice\<close> and
  \<open>includes\<close> all count code units. The model takes \<^typ>\<open>string\<close> for it, one
  \<^typ>\<open>char\<close> per code unit (the code units below 256).

  A JavaScript number is a double. The numbers of the tool responses are only carried
  from one object to the next or printed, never computed with; the one computation is the
  quotient of two small counts in \<open>computeAgreement\<close>. The model takes \<^typ>\<open>rat\<close>:
  every finite double is a rational, and the double that JavaScript returns for the
  quotient of two integers is the correctly rounded value of the rational quotient
  (\<open>4 / 5\<close> is the double written \<open>0.8\<close>, \<open>n / n\<close> is \<open>1\<close>, and rounding keeps a
  quotient of \<open>0 \<le> a \<le> b\<close> within \<open>[0, 1]\<close>).

  Record fields carry a prefix for their record, since field names are global:
  \<open>d_\<close> DelegateResponse, \<open>alt_\<close> its alternatives, \<open>cap_\<close> its capabilities,
  \<open>gov_\<close> its governance, \<open>ce_\<close> CreateExpertResponse, \<open>x_\<close> ExecuteExpertResponse,
  \<open>vr_\<close> VoteResponse, \<open>vc_\<close> its vote counts, \<open>av_\<close> its agent votes,
  \<open>ev_\<close> ModelEvaluation, \<open>sr_\<close> StrategyResult, \<open>res_\<close> ShowdownResult,
  \<open>cfg_\<close> ShowdownConfig.
\<close>

type_synonym number = rat

record Alternative =
  alt_model :: string
  alt_score :: number
  alt_tradeoff :: string

record Governance =
  gov_domain :: string
  gov_votingThreshold :: string
  gov_promotionReason :: string

record Capabilities =
  cap_reasoning :: number
  cap_contextWindow :: number
  cap_codeGeneration :: number
  cap_speed :: number
  cap_cost :: number

record DelegateResponse =
  d_recommended_model :: string
  d_reasoning :: string
  d_capabilities :: Capabilities
  d_estimated_tokens :: number
  d_alternatives :: "Alternative list"
  d_governance :: "Governance option"

record CreateExpertResponse =
  ce_expertId :: string
  ce_role :: string
  ce_capabilities :: "string list"
  ce_status :: string

record ExecuteExpertResponse =
  x_expertId :: string
  x_output :: string
  x_confidence :: number
  x_tokensUsed :: number

text \<open>\<open>VOTING_STRATEGIES\<close> and the type \<open>VotingStrategy\<close> of its five members.\<close>

datatype VotingStrategy =
  simple_majority | supermajority | unanimous | proof_of_learning | higher_order

definition VOTING_STRATEGIES :: "VotingStrategy list" where
  "VOTING_STRATEGIES =
     [simple_majority, supermajority, unanimous, proof_of_learning, higher_order]"

text \<open>The string that a member of \<open>VotingStrategy\<close> is at run time.\<close>

fun strategyName :: "VotingStrategy \<Rightarrow> string" where
  "strategyName simple_majority = ''simple_majority''"
| "strategyName supermajority = ''supermajority''"
| "strategyName unanimous = ''unanimous''"
| "strategyName proof_of_learning = ''proof_of_learning''"
| "strategyName higher_order = ''higher_order''"

text \<open>The ballot of one agent: \<open>z.enum(['approve', 'reject', 'abstain'])\<close>.\<close>

datatype Ballot = approve | reject | abstain

text \<open>The decision of a vote: \<open>z.enum(['approved', 'rejected', 'pending', 'timeout'])\<close>.\<close>

datatype Decision = approved | rejected | pending | timeout

fun decisionName :: "Decision \<Rightarrow> string" where
  "decisionName approved = ''approved''"
| "decisionName rejected = ''rejected''"
| "decisionName pending = ''pending''"
| "decisionName timeout = ''timeout''"

record VoteCounts =
  vc_approve :: number
  vc_reject :: number
  vc_abstain :: number
  vc_error :: number

record AgentVote =
  av_role :: string
  av_decision :: Ballot
  av_confidence :: number
  av_reasoning :: string
  av_simulated :: bool
  av_error :: bool

text \<open>
  \<open>VoteResponseSchema\<close> takes any string for \<open>strategy\<close> (\<open>z.string()\<close>) and one of
  the four decisions for \<open>decision\<close>.
\<close>

record VoteResponse =
  vr_proposal :: string
  vr_strategy :: string
  vr_decision :: Decision
  vr_approvalPercentage :: number
  vr_voteCounts :: VoteCounts
  vr_votes :: "AgentVote list"
  vr_durationMs :: number
  vr_simulateVotes :: bool

subsection \<open>Pipeline types\<close>

record ModelEvaluation =
  ev_task :: string
  ev_recommendedModel :: string
  ev_reasoning :: string
  ev_alternatives :: "(string \<times> number) list"
  ev_expertRole :: string
  ev_expertOutput :: string
  ev_expertConfidence :: number

text \<open>
  \<open>StrategyResult.strategy\<close> is declared a \<open>VotingStrategy\<close>, but it is filled by the
  unchecked cast \<open>vote.strategy as VotingStrategy\<close> of a field that the schema lets be
  any string; \<open>decision\<close> is declared a \<open>string\<close>. Both are strings here.
\<close>

record StrategyResult =
  sr_strategy :: string
  sr_decision :: string
  sr_approvalPercentage :: number
  sr_voteCounts :: VoteCounts
  sr_durationMs :: number

record ShowdownResult =
  res_evaluation :: ModelEvaluation
  res_strategyResults :: "StrategyResult list"
  res_strategyAgreement :: number
  res_errors :: "string list"

datatype Capability = cap_reasoning_pref | cap_context_pref | cap_speed_pref | cap_code_pref

fun capabilityName :: "Capability \<Rightarrow> string" where
  "capabilityName cap_reasoning_pref = ''reasoning''"
| "capabilityName cap_context_pref = ''context''"
| "capabilityName cap_speed_pref = ''speed''"
| "capabilityName cap_code_pref = ''code''"

record ShowdownConfig =
  cfg_task :: string
  cfg_preferredCapability :: "Capability option"
  cfg_expertRole :: "string option"
  cfg_strategies :: "VotingStrategy list option"

section \<open>String operations of the language\<close>

definition newline :: string where
  "newline = [CHR 0x0A]"

definition dquote :: string where
  "dquote = [CHR 0x22]"

text \<open>\<open>Array.prototype.join\<close> on an array of strings.\<close>

fun join :: "string \<Rightarrow> string list \<Rightarrow> string" where
  "join sep [] = []"
| "join sep [x] = x"
| "join sep (x # y # ys) = x @ sep @ join sep (y # ys)"

text \<open>
  \<open>String.prototype.toLowerCase\<close> on the code units below 256: the letters \<open>A\<close> to
  \<open>Z\<close> (65 to 90) and the Latin-1 capitals (192 to 222 without the multiplication sign
  215) move up by 32, every other code unit stays.
\<close>

definition lowerChar :: "char \<Rightarrow> char" where
  "lowerChar c =
     (let n = (of_char c :: nat)
      in if (65 \<le> n \<and> n \<le> 90) \<or> (192 \<le> n \<and> n \<le> 222 \<and> n \<noteq> 215)
         then char_of (n + 32) else c)"

definition toLowerCase :: "string \<Rightarrow> string" where
  "toLowerCase s = map lowerChar s"

text \<open>\<open>String.prototype.includes\<close>: the search string occurs at some position.\<close>

fun str_includes :: "string \<Rightarrow> string \<Rightarrow> bool" where
  "str_includes [] k = (k = [])"
| "str_includes (c # cs) k = (prefix k (c # cs) \<or> str_includes cs k)"

section \<open>Helpers of the pipeline (pipeline.ts)\<close>

text \<open>
  \<open>buildProposal\<close>. The conversion of a number to a string in a template literal
  belongs to the language, not to the repository: it is the parameter \<open>numStr\<close>.
  \<open>filter(Boolean)\<close> drops every empty string of the array.
\<close>

definition buildProposal ::
  "(number \<Rightarrow> string) \<Rightarrow> DelegateResponse \<Rightarrow> ExecuteExpertResponse \<Rightarrow> string" where
  "buildProposal numStr delegation expertResult =
     (let alternatives =
            join '', ''
              (map (\<lambda>a. alt_model a @ '' (score: '' @ numStr (alt_score a) @ '')'')
                 (d_alternatives delegation))
      in join newline
           (filter (\<lambda>s. s \<noteq> [])
              [''Model recommendation: '' @ d_recommended_model delegation,
               ''Reasoning: '' @ d_reasoning delegation,
               (if alternatives \<noteq> [] then ''Alternatives: '' @ alternatives else []),
               ''Expert analysis (confidence: '' @ numStr (x_confidence expertResult) @ ''):'',
               take 2000 (x_output expertResult)]))"

definition toStrategyResult :: "VoteResponse \<Rightarrow> StrategyResult" where
  "toStrategyResult vote =
     \<lparr>sr_strategy = vr_strategy vote,
      sr_decision = decisionName (vr_decision vote),
      sr_approvalPercentage = vr_approvalPercentage vote,
      sr_voteCounts = vr_voteCounts vote,
      sr_durationMs = vr_durationMs vote\<rparr>"

definition computeAgreement :: "StrategyResult list \<Rightarrow> number" where
  "computeAgreement results =
     (if length results = 0 then 0
      else let decisions = map sr_decision results;
               approvedCount = length (filter (\<lambda>d. d = ''approved'') decisions);
               rejectedCount = length (filter (\<lambda>d. d = ''rejected'') decisions);
               majorityCount = max approvedCount rejectedCount
           in of_nat majorityCount / of_nat (length results))"

definition inferExpertRole :: "string \<Rightarrow> string" where
  "inferExpertRole task =
     (let lower = toLowerCase task
      in if str_includes lower ''security'' \<or> str_includes lower ''vulnerab''
           then ''security_expert''
         else if str_includes lower ''architect'' \<or> str_includes lower ''design''
           then ''architecture_expert''
         else if str_includes lower ''test'' \<or> str_includes lower ''qa''
           then ''testing_expert''
         else if str_includes lower ''doc'' \<or> str_includes lower ''readme''
           then ''documentation_expert''
         else if str_includes lower ''deploy'' \<or> str_includes lower ''ci/cd''
           then ''devops_expert''
         else if str_includes lower ''research'' \<or> str_includes lower ''paper''
           then ''research_expert''
         else if str_includes lower ''product'' \<or> str_includes lower ''user stor''
           then ''pm_expert''
         else if str_includes lower ''ux'' \<or> str_includes lower ''usability''
           then ''ux_expert''
         else ''code_expert'')"

section \<open>The tool gateway and the response validator\<close>

text \<open>
  What a rejected promise or a \<open>throw\<close> carries, as far as the pipeline looks at it:
  an \<open>Error\<close> instance, given by what the template literal of the \<open>catch\<close> block
  makes of its \<open>message\<close>, or any other value, given by what \<open>String(e)\<close> makes of
  it. Either is a string, or a throw of its own: \<open>String(Object.create(null))\<close> throws
  a \<open>TypeError\<close>, and so does the template on a \<open>message\<close> that is a \<open>Symbol\<close>.
\<close>

datatype thrown = Error_instance "thrown + string" | Other_value "thrown + string"

text \<open>\<open>new Error(message)\<close>: an \<open>Error\<close> instance whose message is a string.\<close>

abbreviation newError :: "string \<Rightarrow> thrown" where
  "newError message \<equiv> Error_instance (Inr message)"

text \<open>
  \<open>e instanceof Error ? e.message : String(e)\<close> inside the template literal: the
  string, or what the conversion throws.
\<close>

fun errorMessage :: "thrown \<Rightarrow> thrown + string" where
  "errorMessage (Error_instance message) = message"
| "errorMessage (Other_value str) = str"

text \<open>
  \<open>ToolCaller.call(tool, args)\<close>: an implementation has a state of its own (type
  \<open>'g\<close>), and a call either resolves to an untyped result (type \<open>'r\<close>) or rejects; either
  way it may change the state. The argument bag is a list of keys with their values, in
  insertion order; every value the pipeline sends is a string. A call whose promise never
  settles has no value here: the run that awaits it never settles either.
\<close>

type_synonym args = "(string \<times> string) list"

type_synonym ('g, 'r) ToolCaller = "'g \<Rightarrow> string \<Rightarrow> args \<Rightarrow> (thrown + 'r) \<times> 'g"

text \<open>
  The state of a run: the state of the gateway, and the invocations made so far, oldest
  first. The list of invocations is what the tests' callers record in \<open>calls\<close>; the
  pipeline itself never reads it.
\<close>

record 'g world =
  w_gateway :: 'g
  w_calls :: "(string \<times> args) list"

definition callTool ::
  "('g, 'r) ToolCaller \<Rightarrow> 'g world \<Rightarrow> string \<Rightarrow> args \<Rightarrow> (thrown + 'r) \<times> 'g world" where
  "callTool call w tool as =
     (case call (w_gateway w) tool as of
        (res, g') \<Rightarrow> (res, \<lparr>w_gateway = g', w_calls = w_calls w @ [(tool, as)]\<rparr>))"

text \<open>
  What the pipeline takes from outside the repository: the four \<open>parse\<close> methods of the
  schemas (the library's validation: the typed value, or a throw), and the language's
  conversion of a number to a string.
\<close>

record 'r env =
  numberToString :: "number \<Rightarrow> string"
  parseDelegateResponse :: "'r \<Rightarrow> thrown + DelegateResponse"
  parseCreateExpertResponse :: "'r \<Rightarrow> thrown + CreateExpertResponse"
  parseExecuteExpertResponse :: "'r \<Rightarrow> thrown + ExecuteExpertResponse"
  parseVoteResponse :: "'r \<Rightarrow> thrown + VoteResponse"

section \<open>The four steps (pipeline.ts)\<close>

definition delegateTask ::
  "'r env \<Rightarrow> ('g, 'r) ToolCaller \<Rightarrow> 'g world \<Rightarrow> string \<Rightarrow> string option
     \<Rightarrow> (thrown + DelegateResponse) \<times> 'g world" where
  "delegateTask env call w task capability =
     (let as = [(''task'', task)] @
               (case capability of None \<Rightarrow> [] | Some c \<Rightarrow> [(''preferred_capability'', c)])
      in case callTool call w ''delegate_to_model'' as of
           (Inl t, w') \<Rightarrow> (Inl t, w')
         | (Inr raw, w') \<Rightarrow> (parseDelegateResponse env raw, w'))"

definition createExpert ::
  "'r env \<Rightarrow> ('g, 'r) ToolCaller \<Rightarrow> 'g world \<Rightarrow> string
     \<Rightarrow> (thrown + CreateExpertResponse) \<times> 'g world" where
  "createExpert env call w role =
     (case callTool call w ''create_expert'' [(''role'', role)] of
        (Inl t, w') \<Rightarrow> (Inl t, w')
      | (Inr raw, w') \<Rightarrow> (parseCreateExpertResponse env raw, w'))"

definition executeExpert ::
  "'r env \<Rightarrow> ('g, 'r) ToolCaller \<Rightarrow> 'g world \<Rightarrow> string \<Rightarrow> string
     \<Rightarrow> (thrown + ExecuteExpertResponse) \<times> 'g world" where
  "executeExpert env call w expertId task =
     (case callTool call w ''execute_expert'' [(''expertId'', expertId), (''task'', task)] of
        (Inl t, w') \<Rightarrow> (Inl t, w')
      | (Inr raw, w') \<Rightarrow> (parseExecuteExpertResponse env raw, w'))"

definition voteWithStrategy ::
  "'r env \<Rightarrow> ('g, 'r) ToolCaller \<Rightarrow> 'g world \<Rightarrow> string \<Rightarrow> VotingStrategy
     \<Rightarrow> (thrown + VoteResponse) \<times> 'g world" where
  "voteWithStrategy env call w proposal strategy =
     (case callTool call w ''consensus_vote''
             [(''proposal'', proposal), (''strategy'', strategyName strategy)] of
        (Inl t, w') \<Rightarrow> (Inl t, w')
      | (Inr raw, w') \<Rightarrow> (parseVoteResponse env raw, w'))"

section \<open>The full pipeline\<close>

text \<open>The bindings of \<open>runShowdown\<close> that depend on the configuration and the responses only.\<close>

definition configuredStrategies :: "ShowdownConfig \<Rightarrow> VotingStrategy list" where
  \<comment> \<open>\<open>config.strategies ?? VOTING_STRATEGIES\<close>\<close>
  "configuredStrategies config =
     (case cfg_strategies config of None \<Rightarrow> VOTING_STRATEGIES | Some ss \<Rightarrow> ss)"

definition requestedRole :: "ShowdownConfig \<Rightarrow> string" where
  \<comment> \<open>\<open>config.expertRole ?? inferExpertRole(config.task)\<close>\<close>
  "requestedRole config =
     (case cfg_expertRole config of None \<Rightarrow> inferExpertRole (cfg_task config) | Some r \<Rightarrow> r)"

definition expertTask :: "ShowdownConfig \<Rightarrow> DelegateResponse \<Rightarrow> string" where
  "expertTask config delegation =
     ''Evaluate this model recommendation for the task: '' @ dquote @ cfg_task config
       @ dquote @ newline @ newline
       @ ''Recommended: '' @ d_recommended_model delegation @ newline
       @ ''Reasoning: '' @ d_reasoning delegation"

definition buildEvaluation ::
  "ShowdownConfig \<Rightarrow> DelegateResponse \<Rightarrow> CreateExpertResponse \<Rightarrow> ExecuteExpertResponse
     \<Rightarrow> ModelEvaluation" where
  "buildEvaluation config delegation expert expertResult =
     \<lparr>ev_task = cfg_task config,
      ev_recommendedModel = d_recommended_model delegation,
      ev_reasoning = d_reasoning delegation,
      ev_alternatives = map (\<lambda>a. (alt_model a, alt_score a)) (d_alternatives delegation),
      ev_expertRole = ce_role expert,
      ev_expertOutput = x_output expertResult,
      ev_expertConfidence = x_confidence expertResult\<rparr>"

text \<open>
  The \<open>for\<close> loop over the strategies, with its \<open>try\<close> and \<open>catch\<close>: the two arrays
  \<open>strategyResults\<close> and \<open>errors\<close> grow at their ends. Nothing encloses the
  \<open>catch\<close> block: when building the message throws, the throw leaves the loop, and the
  strategies that remain are not called.
\<close>

fun voteLoop ::
  "'r env \<Rightarrow> ('g, 'r) ToolCaller \<Rightarrow> string \<Rightarrow> VotingStrategy list
     \<Rightarrow> StrategyResult list \<Rightarrow> string list \<Rightarrow> 'g world
     \<Rightarrow> (thrown + StrategyResult list \<times> string list) \<times> 'g world" where
  "voteLoop env call proposal [] strategyResults errors w = (Inr (strategyResults, errors), w)"
| "voteLoop env call proposal (strategy # rest) strategyResults errors w =
     (case voteWithStrategy env call w proposal strategy of
        (Inr vote, w') \<Rightarrow>
          voteLoop env call proposal rest (strategyResults @ [toStrategyResult vote]) errors w'
      | (Inl e, w') \<Rightarrow>
          (case errorMessage e of
             Inl t \<Rightarrow> (Inl t, w')
           | Inr message \<Rightarrow>
               voteLoop env call proposal rest strategyResults
                 (errors @ [strategyName strategy @ '' vote failed: '' @ message]) w'))"

definition runShowdown ::
  "'r env \<Rightarrow> ('g, 'r) ToolCaller \<Rightarrow> 'g world \<Rightarrow> ShowdownConfig
     \<Rightarrow> (thrown + ShowdownResult) \<times> 'g world" where
  "runShowdown env call w config =
     (let strategies = configuredStrategies config
      in case delegateTask env call w (cfg_task config)
                (map_option capabilityName (cfg_preferredCapability config)) of
           (Inl t, w1) \<Rightarrow> (Inl t, w1)
         | (Inr delegation, w1) \<Rightarrow>
             (case createExpert env call w1 (requestedRole config) of
                (Inl t, w2) \<Rightarrow> (Inl t, w2)
              | (Inr expert, w2) \<Rightarrow>
                  (case executeExpert env call w2 (ce_expertId expert)
                          (expertTask config delegation) of
                     (Inl t, w3) \<Rightarrow> (Inl t, w3)
                   | (Inr expertResult, w3) \<Rightarrow>
                       (let evaluation = buildEvaluation config delegation expert expertResult;
                            proposal = buildProposal (numberToString env) delegation expertResult
                        in case voteLoop env call proposal strategies [] [] w3 of
                             (Inl t, w4) \<Rightarrow> (Inl t, w4)
                           | (Inr (strategyResults, errors), w4) \<Rightarrow>
                               (Inr \<lparr>res_evaluation = evaluation,
                                     res_strategyResults = strategyResults,
                                     res_strategyAgreement = computeAgreement strategyResults,
                                     res_errors = errors\<rparr>, w4)))))"

section \<open>Notions used to state the properties\<close>

text \<open>
  The outcomes of the voting calls of one run, one per strategy in the order of the
  calls: what \<open>voteWithStrategy\<close> gives for each strategy, each call starting from
  the state the call before left.
\<close>

fun voteOutcomes ::
  "'r env \<Rightarrow> ('g, 'r) ToolCaller \<Rightarrow> string \<Rightarrow> VotingStrategy list \<Rightarrow> 'g world
     \<Rightarrow> (thrown + VoteResponse) list" where
  "voteOutcomes env call proposal [] w = []"
| "voteOutcomes env call proposal (s # ss) w =
     (case voteWithStrategy env call w proposal s of
        (res, w') \<Rightarrow> res # voteOutcomes env call proposal ss w')"

text \<open>
  A voting failure has a message when the \<open>catch\<close> block can build its string; the
  outcomes of a run all have one when this holds of every failure among them.
\<close>

definition hasMessage :: "thrown \<Rightarrow> bool" where
  "hasMessage t = (\<not> isl (errorMessage t))"

definition failuresHaveMessages :: "(thrown + VoteResponse) list \<Rightarrow> bool" where
  "failuresHaveMessages os = list_all (\<lambda>out. isl out \<longrightarrow> hasMessage (projl out)) os"

text \<open>
  What the run makes of the outcomes: the projections of the votes that came back, and
  the messages for the strategies whose call failed.
\<close>

definition successes :: "(thrown + VoteResponse) list \<Rightarrow> StrategyResult list" where
  "successes os = map (\<lambda>out. toStrategyResult (projr out)) (filter (\<lambda>out. \<not> isl out) os)"

definition failures :: "VotingStrategy list \<Rightarrow> (thrown + VoteResponse) list \<Rightarrow> string list" where
  "failures ss os =
     map (\<lambda>(s, out). strategyName s @ '' vote failed: '' @ projr (errorMessage (projl out)))
       (filter (\<lambda>(s, out). isl out) (zip ss os))"

text \<open>
  What a step makes of the outcome of its gateway call: the throw of the gateway, or what
  the validator makes of the result.
\<close>

definition validated :: "('r \<Rightarrow> thrown + 'a) \<Rightarrow> thrown + 'r \<Rightarrow> thrown + 'a" where
  "validated parse res = (case res of Inl t \<Rightarrow> Inl t | Inr raw \<Rightarrow> parse raw)"

text \<open>The invocations that the four steps make.\<close>

definition delegateCall :: "ShowdownConfig \<Rightarrow> string \<times> args" where
  "delegateCall config =
     (''delegate_to_model'',
      (''task'', cfg_task config) #
      (case cfg_preferredCapability config of
         None \<Rightarrow> []
       | Some c \<Rightarrow> [(''preferred_capability'', capabilityName c)]))"

definition createCall :: "string \<Rightarrow> string \<times> args" where
  "createCall role = (''create_expert'', [(''role'', role)])"

definition executeCall :: "string \<Rightarrow> string \<Rightarrow> string \<times> args" where
  "executeCall expertId task = (''execute_expert'', [(''expertId'', expertId), (''task'', task)])"

definition voteCall :: "string \<Rightarrow> VotingStrategy \<Rightarrow> string \<times> args" where
  "voteCall proposal s =
     (''consensus_vote'', [(''proposal'', proposal), (''strategy'', strategyName s)])"

text \<open>
  The rule table of role inference as the specification words it: keywords and the role
  they select, in the order of the rules.
\<close>

definition roleRules :: "(string list \<times> string) list" where
  "roleRules =
     [([''security'', ''vulnerab''], ''security_expert''),
      ([''architect'', ''design''], ''architecture_expert''),
      ([''test'', ''qa''], ''testing_expert''),
      ([''doc'', ''readme''], ''documentation_expert''),
      ([''deploy'', ''ci/cd''], ''devops_expert''),
      ([''research'', ''paper''], ''research_expert''),
      ([''product'', ''user stor''], ''pm_expert''),
      ([''ux'', ''usability''], ''ux_expert'')]"

definition firstMatchingRole :: "string \<Rightarrow> string" where
  "firstMatchingRole task =
     (case find (\<lambda>(keywords, role). list_ex (str_includes (toLowerCase task)) keywords)
             roleRules of
        None \<Rightarrow> ''code_expert''
      | Some (keywords, role) \<Rightarrow> role)"

text \<open>
  The lines of the proposal before the expert's output: the model, the justification, the
  alternatives when there are any, the confidence.
\<close>

definition alternativeText :: "(number \<Rightarrow> string) \<Rightarrow> Alternative \<Rightarrow> string" where
  "alternativeText numStr a = alt_model a @ '' (score: '' @ numStr (alt_score a) @ '')''"

definition proposalHead ::
  "(number \<Rightarrow> string) \<Rightarrow> DelegateResponse \<Rightarrow> ExecuteExpertResponse \<Rightarrow> string list" where
  "proposalHead numStr d e =
     [''Model recommendation: '' @ d_recommended_model d, ''Reasoning: '' @ d_reasoning d]
     @ (if d_alternatives d = [] then []
        else [''Alternatives: '' @ join '', '' (map (alternativeText numStr) (d_alternatives d))])
     @ [''Expert analysis (confidence: '' @ numStr (x_confidence e) @ ''):'']"

text \<open>
  The proposal as the specification words it: the lines above and then the truncated
  output, whatever it is.
\<close>

definition proposalAsStated ::
  "(number \<Rightarrow> string) \<Rightarrow> DelegateResponse \<Rightarrow> ExecuteExpertResponse \<Rightarrow> string" where
  "proposalAsStated numStr d e = join newline (proposalHead numStr d e @ [take 2000 (x_output e)])"

section \<open>Sample responses and a sample gateway\<close>

text \<open>
  Responses in the manner of the repository's fixtures (\<open>fixtures/mock-responses.ts\<close>),
  with shorter texts, and a validator that takes a response of the right kind and throws
  on any other.
\<close>

datatype raw =
  RawDelegate DelegateResponse | RawCreate CreateExpertResponse
| RawExecute ExecuteExpertResponse | RawVote VoteResponse | RawOther

definition sampleNumStr :: "number \<Rightarrow> string" where
  "sampleNumStr q = (if q = 88 / 100 then ''0.88'' else if q = 95 then ''95'' else ''0'')"

definition sampleEnv :: "raw env" where
  "sampleEnv =
     \<lparr>numberToString = sampleNumStr,
      parseDelegateResponse =
        (\<lambda>r. case r of RawDelegate d \<Rightarrow> Inr d | _ \<Rightarrow> Inl (newError ''invalid'')),
      parseCreateExpertResponse =
        (\<lambda>r. case r of RawCreate c \<Rightarrow> Inr c | _ \<Rightarrow> Inl (newError ''invalid'')),
      parseExecuteExpertResponse =
        (\<lambda>r. case r of RawExecute x \<Rightarrow> Inr x | _ \<Rightarrow> Inl (newError ''invalid'')),
      parseVoteResponse =
        (\<lambda>r. case r of RawVote v \<Rightarrow> Inr v | _ \<Rightarrow> Inl (newError ''invalid''))\<rparr>"

definition sampleDelegation :: DelegateResponse where
  "sampleDelegation =
     \<lparr>d_recommended_model = ''codex-5.3'', d_reasoning = ''Best for code'',
      d_capabilities = \<lparr>cap_reasoning = 10, cap_contextWindow = 400000,
         cap_codeGeneration = 10, cap_speed = 7, cap_cost = 5\<rparr>,
      d_estimated_tokens = 28,
      d_alternatives = [\<lparr>alt_model = ''codex-5.2'', alt_score = 95, alt_tradeoff = ''faster''\<rparr>],
      d_governance = None\<rparr>"

definition sampleExpert :: CreateExpertResponse where
  "sampleExpert =
     \<lparr>ce_expertId = ''code-expert'', ce_role = ''code_expert'',
      ce_capabilities = [''task_execution''], ce_status = ''ready''\<rparr>"

definition sampleExecution :: "string \<Rightarrow> ExecuteExpertResponse" where
  "sampleExecution out =
     \<lparr>x_expertId = ''code-expert'', x_output = out,
      x_confidence = 88 / 100, x_tokensUsed = 1250\<rparr>"

definition sampleVote :: "string \<Rightarrow> Decision \<Rightarrow> VoteResponse" where
  "sampleVote s d =
     \<lparr>vr_proposal = ''ok'', vr_strategy = s, vr_decision = d,
      vr_approvalPercentage = 833 / 10,
      vr_voteCounts = \<lparr>vc_approve = 5, vc_reject = 1, vc_abstain = 0, vc_error = 0\<rparr>,
      vr_votes = [], vr_durationMs = 12500, vr_simulateVotes = False\<rparr>"

text \<open>
  A gateway in the manner of the tests' callers. Its state counts the calls made so far;
  \<open>fails tool n\<close> says whether the call number \<open>n\<close> (from 0) throws, when it is a call
  of \<open>tool\<close>. A vote answers with the strategy it was asked for when \<open>echo\<close> holds, and
  with \<open>simple_majority\<close> whatever was asked otherwise (the one fixture that the test
  of vote errors returns for every strategy); \<open>unanimous\<close> is rejected, every other
  strategy approved.
\<close>

definition sampleCaller :: "bool \<Rightarrow> (string \<Rightarrow> nat \<Rightarrow> bool) \<Rightarrow> (nat, raw) ToolCaller" where
  "sampleCaller echo fails n tool as =
     (if fails tool n then (Inl (newError ''vote timeout''), Suc n)
      else if tool = ''delegate_to_model'' then (Inr (RawDelegate sampleDelegation), Suc n)
      else if tool = ''create_expert'' then (Inr (RawCreate sampleExpert), Suc n)
      else if tool = ''execute_expert'' then (Inr (RawExecute (sampleExecution ''Vitest'')), Suc n)
      else if tool = ''consensus_vote'' then
        (case map_of as ''strategy'' of
           None \<Rightarrow> (Inr RawOther, Suc n)
         | Some s \<Rightarrow>
             (Inr (RawVote (sampleVote (if echo then s else ''simple_majority'')
                     (if s = ''unanimous'' then rejected else approved))), Suc n))
      else (Inl (newError (''Unexpected tool: '' @ tool)), Suc n))"

text \<open>A gateway that answers every call with data that no schema accepts.\<close>

definition junkCaller :: "(nat, raw) ToolCaller" where
  "junkCaller n tool as = (Inr RawOther, Suc n)"

definition neverFails :: "string \<Rightarrow> nat \<Rightarrow> bool" where
  "neverFails tool n = False"

definition votesFail :: "string \<Rightarrow> nat \<Rightarrow> bool" where
  "votesFail tool n = (tool = ''consensus_vote'')"

definition callFails :: "nat \<Rightarrow> string \<Rightarrow> nat \<Rightarrow> bool" where
  "callFails k tool n = (n = k)"

text \<open>
  What \<open>throw Object.create(null)\<close> carries: no \<open>Error\<close> instance, and an object
  that \<open>String\<close> cannot convert, so that \<open>String(e)\<close> throws a \<open>TypeError\<close>.
\<close>

definition nullPrototypeObject :: thrown where
  "nullPrototypeObject =
     Other_value (Inl (newError ''Cannot convert object to primitive value''))"

text \<open>
  A gateway that answers the three first steps as the sample gateway does and rejects
  every voting call with such an object.
\<close>

definition opaqueCaller :: "(nat, raw) ToolCaller" where
  "opaqueCaller n tool as =
     (if tool = ''consensus_vote'' then (Inl nullPrototypeObject, Suc n)
      else sampleCaller True neverFails n tool as)"

definition world0 :: "nat world" where
  "world0 = \<lparr>w_gateway = 0, w_calls = []\<rparr>"

definition sampleConfig :: "string \<Rightarrow> VotingStrategy list option \<Rightarrow> ShowdownConfig" where
  "sampleConfig task ss =
     \<lparr>cfg_task = task, cfg_preferredCapability = None, cfg_expertRole = None,
      cfg_strategies = ss\<rparr>"

definition sampleResult :: "string \<Rightarrow> StrategyResult" where
  "sampleResult d =
     \<lparr>sr_strategy = ''simple_majority'', sr_decision = d, sr_approvalPercentage = 833 / 10,
      sr_voteCounts = \<lparr>vc_approve = 5, vc_reject = 1, vc_abstain = 0, vc_error = 0\<rparr>,
      sr_durationMs = 12500\<rparr>"

section \<open>The invocations of each step\<close>

lemma callTool_calls: "w_calls (snd (callTool call w tool as)) = w_calls w @ [(tool, as)]"
  by (simp add: callTool_def split: prod.splits)

lemma delegateTask_calls:
  "w_calls (snd (delegateTask env call w (cfg_task cfg)
      (map_option capabilityName (cfg_preferredCapability cfg)))) = w_calls w @ [delegateCall cfg]"
proof -
  have "snd (delegateTask env call w task cap) =
        snd (callTool call w ''delegate_to_model''
          ([(''task'', task)] @ (case cap of None \<Rightarrow> [] | Some c \<Rightarrow> [(''preferred_capability'', c)])))"
    for task cap
    by (simp add: delegateTask_def Let_def split: prod.splits sum.splits)
  then show ?thesis
    by (simp add: callTool_calls delegateCall_def split: option.splits)
qed

lemma createExpert_calls:
  "w_calls (snd (createExpert env call w role)) = w_calls w @ [createCall role]"
proof -
  have "snd (createExpert env call w role) =
        snd (callTool call w ''create_expert'' [(''role'', role)])"
    by (simp add: createExpert_def split: prod.splits sum.splits)
  then show ?thesis by (simp add: callTool_calls createCall_def)
qed

lemma executeExpert_calls:
  "w_calls (snd (executeExpert env call w expertId task)) = w_calls w @ [executeCall expertId task]"
proof -
  have "snd (executeExpert env call w expertId task) =
        snd (callTool call w ''execute_expert'' [(''expertId'', expertId), (''task'', task)])"
    by (simp add: executeExpert_def split: prod.splits sum.splits)
  then show ?thesis by (simp add: callTool_calls executeCall_def)
qed

lemma voteWithStrategy_calls:
  "w_calls (snd (voteWithStrategy env call w proposal s)) = w_calls w @ [voteCall proposal s]"
proof -
  have "snd (voteWithStrategy env call w proposal s) =
        snd (callTool call w ''consensus_vote''
               [(''proposal'', proposal), (''strategy'', strategyName s)])"
    by (simp add: voteWithStrategy_def split: prod.splits sum.splits)
  then show ?thesis by (simp add: callTool_calls voteCall_def)
qed

section \<open>The voting loop\<close>

lemma length_voteOutcomes: "length (voteOutcomes env call p ss w) = length ss"
  by (induction ss arbitrary: w) (auto split: prod.splits)

lemma hasMessage_iff: "hasMessage t \<longleftrightarrow> (\<exists>m. errorMessage t = Inr m)"
  by (cases "errorMessage t") (simp_all add: hasMessage_def)

lemma failuresHaveMessages_Nil: "failuresHaveMessages []"
  by (simp add: failuresHaveMessages_def)

lemma failuresHaveMessages_Cons:
  "failuresHaveMessages (out # os) \<longleftrightarrow>
     (case out of Inl t \<Rightarrow> \<exists>m. errorMessage t = Inr m | Inr v \<Rightarrow> True)
     \<and> failuresHaveMessages os"
  by (cases out) (simp_all add: failuresHaveMessages_def hasMessage_iff)

lemma failuresHaveMessages_all_succeed:
  "\<forall>out \<in> set os. \<not> isl out \<Longrightarrow> failuresHaveMessages os"
  by (simp add: failuresHaveMessages_def list_all_iff)

text \<open>
  When every failure has a message, the loop runs to its end: one call for each strategy,
  the results and the errors of the outcomes.
\<close>

lemma voteLoop_complete:
  "failuresHaveMessages (voteOutcomes env call p ss w) \<Longrightarrow>
   \<exists>w'. voteLoop env call p ss rs es w
          = (Inr (rs @ successes (voteOutcomes env call p ss w),
                  es @ failures ss (voteOutcomes env call p ss w)), w')
        \<and> w_calls w' = w_calls w @ map (voteCall p) ss"
proof (induction ss arbitrary: rs es w)
  case Nil
  then show ?case by (simp add: successes_def failures_def)
next
  case (Cons s ss)
  obtain res w1 where v: "voteWithStrategy env call w p s = (res, w1)"
    by (cases "voteWithStrategy env call w p s")
  have c: "w_calls w1 = w_calls w @ [voteCall p s]"
    using voteWithStrategy_calls [of env call w p s] v by simp
  from Cons.prems v have h: "failuresHaveMessages (res # voteOutcomes env call p ss w1)"
    by simp
  then have rest: "failuresHaveMessages (voteOutcomes env call p ss w1)"
    by (simp add: failuresHaveMessages_Cons)
  show ?case
  proof (cases res)
    case (Inl t)
    with h obtain m where m: "errorMessage t = Inr m"
      by (auto simp: failuresHaveMessages_Cons)
    obtain w' where
      "voteLoop env call p ss rs (es @ [strategyName s @ '' vote failed: '' @ m]) w1
         = (Inr (rs @ successes (voteOutcomes env call p ss w1),
                 (es @ [strategyName s @ '' vote failed: '' @ m])
                 @ failures ss (voteOutcomes env call p ss w1)), w')"
      and "w_calls w' = w_calls w1 @ map (voteCall p) ss"
      using Cons.IH [OF rest] by blast
    then show ?thesis
      using v Inl m c by (simp add: successes_def failures_def)
  next
    case (Inr vote)
    obtain w' where
      "voteLoop env call p ss (rs @ [toStrategyResult vote]) es w1
         = (Inr ((rs @ [toStrategyResult vote]) @ successes (voteOutcomes env call p ss w1),
                 es @ failures ss (voteOutcomes env call p ss w1)), w')"
      and "w_calls w' = w_calls w1 @ map (voteCall p) ss"
      using Cons.IH [OF rest] by blast
    then show ?thesis
      using v Inr c by (simp add: successes_def failures_def)
  qed
qed

text \<open>A loop that runs to its end has met no failure without a message.\<close>

lemma voteLoop_Inr_messages:
  "fst (voteLoop env call p ss rs es w) = Inr res \<Longrightarrow>
   failuresHaveMessages (voteOutcomes env call p ss w)"
proof (induction ss arbitrary: rs es w)
  case Nil
  then show ?case by (simp add: failuresHaveMessages_Nil)
next
  case (Cons s ss)
  obtain out w1 where v: "voteWithStrategy env call w p s = (out, w1)"
    by (cases "voteWithStrategy env call w p s")
  show ?case
  proof (cases out)
    case (Inl t)
    show ?thesis
    proof (cases "errorMessage t")
      case (Inl t')
      with Cons.prems v \<open>out = Inl t\<close> show ?thesis by simp
    next
      case (Inr m)
      with Cons.prems v \<open>out = Inl t\<close>
      have "failuresHaveMessages (voteOutcomes env call p ss w1)"
        by (auto intro: Cons.IH)
      with v \<open>out = Inl t\<close> Inr show ?thesis
        by (simp add: failuresHaveMessages_Cons)
    qed
  next
    case (Inr vote)
    with Cons.prems v have "failuresHaveMessages (voteOutcomes env call p ss w1)"
      by (auto intro: Cons.IH)
    with v Inr show ?thesis
      by (simp add: failuresHaveMessages_Cons)
  qed
qed

text \<open>Whatever the outcomes, the loop calls the strategies in order, up to some point.\<close>

lemma voteLoop_calls:
  "\<exists>k \<le> length ss.
     w_calls (snd (voteLoop env call p ss rs es w)) = w_calls w @ map (voteCall p) (take k ss)"
proof (induction ss arbitrary: rs es w)
  case Nil
  then show ?case by simp
next
  case (Cons s ss)
  obtain out w1 where v: "voteWithStrategy env call w p s = (out, w1)"
    by (cases "voteWithStrategy env call w p s")
  have c: "w_calls w1 = w_calls w @ [voteCall p s]"
    using voteWithStrategy_calls [of env call w p s] v by simp
  have step: "\<exists>k \<le> length (s # ss). w_calls (snd (voteLoop env call p ss rs' es' w1))
                = w_calls w @ map (voteCall p) (take k (s # ss))" for rs' es'
  proof -
    obtain k where "k \<le> length ss"
      and "w_calls (snd (voteLoop env call p ss rs' es' w1))
             = w_calls w1 @ map (voteCall p) (take k ss)"
      using Cons.IH [of rs' es' w1] by blast
    then have "Suc k \<le> length (s # ss)
        \<and> w_calls (snd (voteLoop env call p ss rs' es' w1))
             = w_calls w @ map (voteCall p) (take (Suc k) (s # ss))"
      by (simp add: c)
    then show ?thesis by blast
  qed
  have stop: "\<exists>k \<le> length (s # ss). w_calls w1 = w_calls w @ map (voteCall p) (take k (s # ss))"
  proof -
    have "Suc 0 \<le> length (s # ss)
        \<and> w_calls w1 = w_calls w @ map (voteCall p) (take (Suc 0) (s # ss))"
      by (simp add: c)
    then show ?thesis by blast
  qed
  show ?case
  proof (cases out)
    case (Inl t)
    then show ?thesis
      using v step stop by (cases "errorMessage t") simp_all
  next
    case (Inr vote)
    then show ?thesis using v step by simp
  qed
qed

lemma length_successes_failures:
  "length ss = length os \<Longrightarrow> length (successes os) + length (failures ss os) = length ss"
proof (induction ss os rule: list_induct2)
  case Nil
  then show ?case by (simp add: successes_def failures_def)
next
  case (Cons s ss out os)
  then show ?case by (cases out) (simp_all add: successes_def failures_def)
qed

lemma successes_all_fail: "\<forall>out \<in> set os. isl out \<Longrightarrow> successes os = []"
  by (simp add: successes_def)

lemma failures_all_fail:
  "length ss = length os \<Longrightarrow> \<forall>out \<in> set os. isl out \<Longrightarrow> length (failures ss os) = length ss"
  using length_successes_failures [of ss os] by (simp add: successes_all_fail)

section \<open>The run\<close>

lemma runShowdown_votes:
  assumes "delegateTask env call w (cfg_task cfg)
             (map_option capabilityName (cfg_preferredCapability cfg)) = (Inr d, w1)"
    and "createExpert env call w1 (requestedRole cfg) = (Inr x, w2)"
    and "executeExpert env call w2 (ce_expertId x) (expertTask cfg d) = (Inr e, w3)"
  shows "runShowdown env call w cfg =
     (case voteLoop env call (buildProposal (numberToString env) d e)
             (configuredStrategies cfg) [] [] w3 of
        (Inl t, w4) \<Rightarrow> (Inl t, w4)
      | (Inr (rs, es), w4) \<Rightarrow>
          (Inr \<lparr>res_evaluation = buildEvaluation cfg d x e,
                res_strategyResults = rs,
                res_strategyAgreement = computeAgreement rs,
                res_errors = es\<rparr>, w4))"
  using assms by (simp add: runShowdown_def Let_def split: prod.splits sum.splits)

lemma runShowdown_votes_world:
  assumes "delegateTask env call w (cfg_task cfg)
             (map_option capabilityName (cfg_preferredCapability cfg)) = (Inr d, w1)"
    and "createExpert env call w1 (requestedRole cfg) = (Inr x, w2)"
    and "executeExpert env call w2 (ce_expertId x) (expertTask cfg d) = (Inr e, w3)"
  shows "snd (runShowdown env call w cfg) =
     snd (voteLoop env call (buildProposal (numberToString env) d e)
            (configuredStrategies cfg) [] [] w3)"
  by (simp add: runShowdown_votes [OF assms] split: prod.splits sum.splits)

text \<open>
  When the three first steps succeed and every voting failure has a message, the run
  returns the result of the outcomes, after one voting call for each strategy.
\<close>

lemma runShowdown_success:
  assumes "delegateTask env call w (cfg_task cfg)
             (map_option capabilityName (cfg_preferredCapability cfg)) = (Inr d, w1)"
    and "createExpert env call w1 (requestedRole cfg) = (Inr x, w2)"
    and "executeExpert env call w2 (ce_expertId x) (expertTask cfg d) = (Inr e, w3)"
    and "failuresHaveMessages
           (voteOutcomes env call (buildProposal (numberToString env) d e)
              (configuredStrategies cfg) w3)"
  shows "\<exists>w'. runShowdown env call w cfg =
     (Inr \<lparr>res_evaluation = buildEvaluation cfg d x e,
           res_strategyResults =
             successes (voteOutcomes env call (buildProposal (numberToString env) d e)
                          (configuredStrategies cfg) w3),
           res_strategyAgreement =
             computeAgreement
               (successes (voteOutcomes env call (buildProposal (numberToString env) d e)
                             (configuredStrategies cfg) w3)),
           res_errors =
             failures (configuredStrategies cfg)
               (voteOutcomes env call (buildProposal (numberToString env) d e)
                  (configuredStrategies cfg) w3)\<rparr>, w')
     \<and> w_calls w' = w_calls w3
           @ map (voteCall (buildProposal (numberToString env) d e)) (configuredStrategies cfg)"
proof -
  obtain w' where
    "voteLoop env call (buildProposal (numberToString env) d e) (configuredStrategies cfg) [] [] w3
       = (Inr ([] @ successes (voteOutcomes env call (buildProposal (numberToString env) d e)
                          (configuredStrategies cfg) w3),
               [] @ failures (configuredStrategies cfg)
                 (voteOutcomes env call (buildProposal (numberToString env) d e)
                    (configuredStrategies cfg) w3)), w')"
    and "w_calls w' = w_calls w3
           @ map (voteCall (buildProposal (numberToString env) d e)) (configuredStrategies cfg)"
    using voteLoop_complete [OF assms(4), of "[]" "[]"] by blast
  then show ?thesis
    by (simp add: runShowdown_votes [OF assms(1-3)])
qed

text \<open>A run that returns a result has passed the three first steps, and its voting
  failures all had a message.\<close>

lemma runShowdown_stages:
  assumes "fst (runShowdown env call w cfg) = Inr r"
  obtains d w1 x w2 e w3 where
    "delegateTask env call w (cfg_task cfg)
             (map_option capabilityName (cfg_preferredCapability cfg)) = (Inr d, w1)"
    and "createExpert env call w1 (requestedRole cfg) = (Inr x, w2)"
    and "executeExpert env call w2 (ce_expertId x) (expertTask cfg d) = (Inr e, w3)"
    and "failuresHaveMessages
           (voteOutcomes env call (buildProposal (numberToString env) d e)
              (configuredStrategies cfg) w3)"
proof -
  obtain d w1 x w2 e w3 where
    s: "delegateTask env call w (cfg_task cfg)
             (map_option capabilityName (cfg_preferredCapability cfg)) = (Inr d, w1)"
       "createExpert env call w1 (requestedRole cfg) = (Inr x, w2)"
       "executeExpert env call w2 (ce_expertId x) (expertTask cfg d) = (Inr e, w3)"
    using assms
    by (auto simp add: runShowdown_def Let_def split: prod.splits sum.splits)
  obtain res where "fst (voteLoop env call (buildProposal (numberToString env) d e)
             (configuredStrategies cfg) [] [] w3) = Inr res"
    using assms runShowdown_votes [OF s]
    by (auto split: prod.splits sum.splits)
  then have "failuresHaveMessages
           (voteOutcomes env call (buildProposal (numberToString env) d e)
              (configuredStrategies cfg) w3)"
    by (rule voteLoop_Inr_messages)
  with s show ?thesis by (rule that)
qed

section \<open>Agreement\<close>

lemma count_filter: "length (filter (\<lambda>d. d = x) ds) = count_list ds x"
  by (induction ds) auto

lemma computeAgreement_formula:
  "rs \<noteq> [] \<Longrightarrow> computeAgreement rs =
     of_nat (max (count_list (map sr_decision rs) ''approved'')
                 (count_list (map sr_decision rs) ''rejected'')) / of_nat (length rs)"
  by (simp add: computeAgreement_def Let_def count_filter)

lemma computeAgreement_Nil: "computeAgreement [] = 0"
  by (simp add: computeAgreement_def)

lemma computeAgreement_range: "0 \<le> computeAgreement rs \<and> computeAgreement rs \<le> 1"
proof (cases "rs = []")
  case True
  then show ?thesis by (simp add: computeAgreement_Nil)
next
  case False
  have a: "count_list (map sr_decision rs) ''approved'' \<le> length rs"
    using count_le_length [of "map sr_decision rs"] by simp
  have r: "count_list (map sr_decision rs) ''rejected'' \<le> length rs"
    using count_le_length [of "map sr_decision rs"] by simp
  from a r have "max (count_list (map sr_decision rs) ''approved'')
                 (count_list (map sr_decision rs) ''rejected'') \<le> length rs"
    by simp
  then have "(of_nat (max (count_list (map sr_decision rs) ''approved'')
                 (count_list (map sr_decision rs) ''rejected'')) :: rat) \<le> of_nat (length rs)"
    by (simp only: of_nat_le_iff)
  moreover have "(0::rat) < of_nat (length rs)" using False by simp
  ultimately show ?thesis
    using False by (simp add: computeAgreement_formula divide_le_eq_1 del: of_nat_max)
qed

text \<open>
  Claim C3. \<open>computeAgreement\<close> is 0 on the empty list. On a non-empty list it is the
  larger of the number of \<open>approved\<close> entries and the number of \<open>rejected\<close> entries,
  divided by the number of entries; an entry that is \<open>pending\<close> or \<open>timeout\<close> adds one
  to the denominator and nothing to either count. The value lies between 0 and 1, and
  four \<open>approved\<close> with one \<open>rejected\<close> give \<open>4 / 5\<close>.
\<close>

theorem computeAgreement_ratio:
  "computeAgreement [] = 0
   \<and> (rs \<noteq> [] \<longrightarrow> computeAgreement rs =
         of_nat (max (count_list (map sr_decision rs) ''approved'')
                     (count_list (map sr_decision rs) ''rejected'')) / of_nat (length rs))
   \<and> (sr_decision r = ''pending'' \<or> sr_decision r = ''timeout'' \<longrightarrow>
         computeAgreement (r # rs) =
         of_nat (max (count_list (map sr_decision rs) ''approved'')
                     (count_list (map sr_decision rs) ''rejected'')) / of_nat (length rs + 1))
   \<and> 0 \<le> computeAgreement rs \<and> computeAgreement rs \<le> 1
   \<and> (map sr_decision rs = [''approved'', ''approved'', ''approved'', ''approved'', ''rejected'']
        \<longrightarrow> computeAgreement rs = 4 / 5)"
proof -
  have ex: "computeAgreement rs = 4 / 5"
    if h: "map sr_decision rs = [''approved'', ''approved'', ''approved'', ''approved'', ''rejected'']"
  proof -
    from h have "length (map sr_decision rs) = 5" by simp
    then have l: "length rs = 5" by simp
    then have ne: "rs \<noteq> []" by auto
    show ?thesis
      by (simp add: computeAgreement_formula [OF ne] h l)
  qed
  have pe: "computeAgreement (r # rs) =
         of_nat (max (count_list (map sr_decision rs) ''approved'')
                     (count_list (map sr_decision rs) ''rejected'')) / of_nat (length rs + 1)"
    if "sr_decision r = ''pending'' \<or> sr_decision r = ''timeout''"
    using that computeAgreement_formula [of "r # rs"] by auto
  show ?thesis
    using computeAgreement_Nil computeAgreement_formula computeAgreement_range ex pe
    by blast
qed

text \<open>
  Four approvals and one rejection give \<open>4 / 5\<close>; a pending entry before one approval
  gives \<open>1 / 2\<close>.
\<close>

theorem computeAgreement_ratio_witness:
  "computeAgreement
     [sampleResult ''approved'', sampleResult ''approved'', sampleResult ''approved'',
      sampleResult ''approved'', sampleResult ''rejected''] = 4 / 5
   \<and> computeAgreement [sampleResult ''pending'', sampleResult ''approved''] = 1 / 2"
  using computeAgreement_ratio [of "[sampleResult ''approved'', sampleResult ''approved'', sampleResult ''approved'',
      sampleResult ''approved'', sampleResult ''rejected'']" "sampleResult ''pending''"]
    computeAgreement_ratio [of "[sampleResult ''approved'']" "sampleResult ''pending''"]
  by (simp add: sampleResult_def)

lemma count_all_same: "\<forall>x \<in> set ds. x = d \<Longrightarrow> count_list ds d = length ds"
  by (induction ds) auto

lemma count_none: "\<forall>x \<in> set ds. x \<noteq> d \<Longrightarrow> count_list ds d = 0"
  by (induction ds) auto

text \<open>
  Claim C4, amended. On a non-empty list whose entries all carry the same decision, the
  agreement is 1 when that decision is \<open>approved\<close> or \<open>rejected\<close>, and 0 when it is any
  other (\<open>pending\<close>, \<open>timeout\<close>): only the two sides of a vote count as a majority.
\<close>

theorem computeAgreement_shared_decision:
  assumes "rs \<noteq> []" and "\<forall>r \<in> set rs. sr_decision r = d"
  shows "(d = ''approved'' \<or> d = ''rejected'' \<longrightarrow> computeAgreement rs = 1)
       \<and> (d \<noteq> ''approved'' \<and> d \<noteq> ''rejected'' \<longrightarrow> computeAgreement rs = 0)"
proof -
  have all: "\<forall>x \<in> set (map sr_decision rs). x = d" using assms(2) by simp
  have c: "count_list (map sr_decision rs) d = length rs"
    using count_all_same [OF all] by simp
  have n: "count_list (map sr_decision rs) d' = 0" if "d' \<noteq> d" for d'
    using all that by (intro count_none) auto
  have pos: "(of_nat (length rs) :: rat) \<noteq> 0" using assms(1) by simp
  show ?thesis
  proof (intro conjI impI)
    assume "d = ''approved'' \<or> d = ''rejected''"
    then show "computeAgreement rs = 1"
    proof
      assume d: "d = ''approved''"
      then have "count_list (map sr_decision rs) ''rejected'' = 0" using n by simp
      with c d pos show ?thesis
        by (simp add: computeAgreement_formula [OF assms(1)])
    next
      assume d: "d = ''rejected''"
      then have "count_list (map sr_decision rs) ''approved'' = 0" using n by simp
      with c d pos show ?thesis
        by (simp add: computeAgreement_formula [OF assms(1)])
    qed
  next
    assume "d \<noteq> ''approved'' \<and> d \<noteq> ''rejected''"
    then have "count_list (map sr_decision rs) ''approved'' = 0"
      and "count_list (map sr_decision rs) ''rejected'' = 0"
      using n by auto
    then show "computeAgreement rs = 0"
      by (simp add: computeAgreement_formula [OF assms(1)])
  qed
qed

text \<open>
  Claim C4 as stated, for any shared decision, fails on two entries that are both
  \<open>pending\<close>: their agreement is 0, not 1.
\<close>

theorem computeAgreement_shared_pending_counterexample:
  "sr_decision (sampleResult ''pending'') = ''pending''
   \<and> computeAgreement [sampleResult ''pending'', sampleResult ''pending''] = 0
   \<and> computeAgreement [sampleResult ''pending'', sampleResult ''pending''] \<noteq> 1"
  by (simp add: computeAgreement_def sampleResult_def)

text \<open>
  Two rejections agree fully; two timeouts have agreement 0.
\<close>

theorem computeAgreement_shared_decision_witness:
  "computeAgreement [sampleResult ''rejected'', sampleResult ''rejected''] = 1
   \<and> computeAgreement [sampleResult ''timeout'', sampleResult ''timeout''] = 0"
proof -
  have a: "[sampleResult d, sampleResult d] \<noteq> []" for d by simp
  have b: "\<forall>r \<in> set [sampleResult d, sampleResult d]. sr_decision r = d" for d
    by (simp add: sampleResult_def)
  show ?thesis
    using computeAgreement_shared_decision [OF a b, of "''rejected''"] computeAgreement_shared_decision [OF a b, of "''timeout''"] by simp
qed

section \<open>Strings\<close>

lemma str_includes_sublist: "str_includes s k = sublist k s"
  by (induction s) (auto simp: sublist_Cons_right)

lemma join_Cons: "join sep (x # xs) = x @ (if xs = [] then [] else sep @ join sep xs)"
  by (cases xs) simp_all

lemma join_snoc: "xs \<noteq> [] \<Longrightarrow> join sep (xs @ [y]) = join sep xs @ sep @ y"
  by (induction sep xs rule: join.induct) simp_all

lemma join_nonempty: "xs \<noteq> [] \<Longrightarrow> \<forall>x \<in> set xs. x \<noteq> [] \<Longrightarrow> join sep xs \<noteq> []"
  by (cases xs) (simp_all add: join_Cons)

lemma sublist_join: "x \<in> set xs \<Longrightarrow> sublist x (join sep xs)"
proof (induction sep xs rule: join.induct)
  case (1 sep)
  then show ?case by simp
next
  case (2 sep y)
  then show ?case by simp
next
  case (3 sep y z zs)
  show ?case
  proof (cases "x = y")
    case True
    then show ?thesis by (simp add: sublist_append)
  next
    case False
    with 3 have "sublist x (join sep (z # zs))" by simp
    then show ?thesis by (simp add: sublist_append)
  qed
qed

section \<open>The proposal\<close>

lemma alternatives_empty_iff:
  "join '', '' (map (alternativeText numStr) alts) = [] \<longleftrightarrow> alts = []"
proof
  assume j: "join '', '' (map (alternativeText numStr) alts) = []"
  show "alts = []"
  proof (rule ccontr)
    assume "alts \<noteq> []"
    then have "join '', '' (map (alternativeText numStr) alts) \<noteq> []"
      by (intro join_nonempty) (auto simp: alternativeText_def)
    with j show False by simp
  qed
qed simp

lemma buildProposal_lines:
  "buildProposal numStr d e =
     join newline (proposalHead numStr d e
                   @ (if x_output e = [] then [] else [take 2000 (x_output e)]))"
proof -
  have m: "map (\<lambda>a. alt_model a @ '' (score: '' @ numStr (alt_score a) @ '')'') alts
           = map (alternativeText numStr) alts" for alts
    by (simp add: alternativeText_def)
  show ?thesis
    unfolding buildProposal_def Let_def m proposalHead_def alternatives_empty_iff
    by simp
qed

lemma proposalHead_nonempty: "proposalHead numStr d e \<noteq> []"
  by (simp add: proposalHead_def)

lemma buildProposal_length:
  "length (buildProposal numStr d e) \<le> length (join newline (proposalHead numStr d e)) + 2001"
  by (simp add: buildProposal_lines join_snoc [OF proposalHead_nonempty] newline_def)

lemma buildProposal_includes_line:
  "l \<in> set (proposalHead numStr d e) \<Longrightarrow> sublist k l \<Longrightarrow> sublist k (buildProposal numStr d e)"
proof -
  assume l: "l \<in> set (proposalHead numStr d e)" and k: "sublist k l"
  have "sublist l (buildProposal numStr d e)"
    unfolding buildProposal_lines using l by (intro sublist_join) simp
  with k show ?thesis by (rule sublist_order.order_trans)
qed

lemma buildProposal_includes_output:
  "sublist (take 2000 (x_output e)) (buildProposal numStr d e)"
proof (cases "x_output e = []")
  case True
  then show ?thesis by simp
next
  case False
  show ?thesis
    unfolding buildProposal_lines using False by (intro sublist_join) simp
qed

lemma buildProposal_includes_model:
  "sublist (d_recommended_model d) (buildProposal numStr d e)"
proof -
  have "sublist (d_recommended_model d) (''Model recommendation: '' @ d_recommended_model d @ [])"
    by (rule sublist_appendI)
  then show ?thesis
    by (rule buildProposal_includes_line [rotated]) (simp add: proposalHead_def)
qed

lemma buildProposal_includes_confidence:
  "sublist (''confidence: '' @ numStr (x_confidence e)) (buildProposal numStr d e)"
proof -
  have "sublist (''confidence: '' @ numStr (x_confidence e))
          (''Expert analysis ('' @ (''confidence: '' @ numStr (x_confidence e)) @ ''):'')"
    by (rule sublist_appendI)
  then show ?thesis
    by (rule buildProposal_includes_line [rotated]) (simp add: proposalHead_def)
qed

text \<open>
  Claim C6, amended. \<open>buildProposal\<close> joins with newlines: the line of the recommended
  model, the line of the justification, the line of the alternatives (each as
  \<open>model (score: N)\<close>, separated by a comma and a space) unless there is no alternative,
  the line of the expert's confidence, and the first 2000 characters of the expert's
  output with no marker after them, unless the output is empty: then this last part is
  left out as well and the proposal ends with the confidence line. A recommended model
  \<open>codex-5.3\<close> and a confidence printed as \<open>0.88\<close> occur in the proposal as
  \<open>codex-5.3\<close> and \<open>confidence: 0.88\<close>, and so does the truncated output. The proposal
  is at most 2001 characters longer than its lines before the output, however long the
  raw output is.
\<close>

theorem buildProposal_layout:
  "buildProposal numStr d e =
     join newline (proposalHead numStr d e
                   @ (if x_output e = [] then [] else [take 2000 (x_output e)]))
   \<and> (d_recommended_model d = ''codex-5.3'' \<longrightarrow>
        str_includes (buildProposal numStr d e) ''codex-5.3'')
   \<and> (numStr (x_confidence e) = ''0.88'' \<longrightarrow>
        str_includes (buildProposal numStr d e) ''confidence: 0.88'')
   \<and> str_includes (buildProposal numStr d e) (take 2000 (x_output e))
   \<and> length (buildProposal numStr d e) \<le> length (join newline (proposalHead numStr d e)) + 2001"
proof -
  have a: "str_includes (buildProposal numStr d e) ''codex-5.3''"
    if "d_recommended_model d = ''codex-5.3''"
    using buildProposal_includes_model [of d numStr e] that
    by (simp add: str_includes_sublist)
  have b: "str_includes (buildProposal numStr d e) ''confidence: 0.88''"
    if "numStr (x_confidence e) = ''0.88''"
    using buildProposal_includes_confidence [of numStr e d] that
    by (simp add: str_includes_sublist)
  show ?thesis
    using a b buildProposal_lines buildProposal_length buildProposal_includes_output
    by (simp add: str_includes_sublist)
qed

text \<open>
  Claim C6 as stated, with the output always joined as the last part, fails on an empty
  output: the statement gives a proposal that ends with a newline, \<open>buildProposal\<close> one
  that ends with the colon of the confidence line.
\<close>

theorem buildProposal_empty_output_counterexample:
  "buildProposal sampleNumStr sampleDelegation (sampleExecution [])
     \<noteq> proposalAsStated sampleNumStr sampleDelegation (sampleExecution [])"
  by code_simp


text \<open>
  On the sample responses: the two substrings occur, and with a raw output of 5000
  characters the proposal has at most 2129.
\<close>

theorem buildProposal_layout_witness:
  "str_includes (buildProposal sampleNumStr sampleDelegation (sampleExecution ''Vitest'')) ''codex-5.3''
   \<and> str_includes (buildProposal sampleNumStr sampleDelegation (sampleExecution ''Vitest''))
        ''confidence: 0.88''
   \<and> length (buildProposal sampleNumStr sampleDelegation
               (sampleExecution (replicate 5000 CHR ''x''))) \<le> 2129"
proof -
  have m: "d_recommended_model sampleDelegation = ''codex-5.3''"
    by (simp add: sampleDelegation_def)
  have c: "sampleNumStr (x_confidence (sampleExecution out)) = ''0.88''" for out
    by (simp add: sampleNumStr_def sampleExecution_def)
  have h: "length (join newline (proposalHead sampleNumStr sampleDelegation
               (sampleExecution (replicate 5000 CHR ''x'')))) = 128"
    by (simp add: proposalHead_def sampleDelegation_def sampleExecution_def sampleNumStr_def
        alternativeText_def newline_def)
  have i1: "str_includes (buildProposal sampleNumStr sampleDelegation (sampleExecution ''Vitest''))
              ''codex-5.3''"
    using buildProposal_layout [of sampleNumStr sampleDelegation "sampleExecution ''Vitest''"] m by blast
  have i2: "str_includes (buildProposal sampleNumStr sampleDelegation (sampleExecution ''Vitest''))
              ''confidence: 0.88''"
    using buildProposal_layout [of sampleNumStr sampleDelegation "sampleExecution ''Vitest''"] c by blast
  have "length (buildProposal sampleNumStr sampleDelegation
               (sampleExecution (replicate 5000 CHR ''x'')))
        \<le> length (join newline (proposalHead sampleNumStr sampleDelegation
               (sampleExecution (replicate 5000 CHR ''x'')))) + 2001"
    using buildProposal_layout [of sampleNumStr sampleDelegation "sampleExecution (replicate 5000 CHR ''x'')"]
    by blast
  then have i3: "length (buildProposal sampleNumStr sampleDelegation
               (sampleExecution (replicate 5000 CHR ''x''))) \<le> 2129"
    by (simp only: h)
  from i1 i2 i3 show ?thesis by blast
qed

section \<open>Role inference\<close>

lemma inferExpertRole_table: "inferExpertRole task = firstMatchingRole task"
  by (simp add: inferExpertRole_def firstMatchingRole_def roleRules_def Let_def)

lemma inferExpertRole_lower:
  "toLowerCase task = toLowerCase task' \<Longrightarrow> inferExpertRole task = inferExpertRole task'"
  by (simp add: inferExpertRole_def)

lemma inferExpertRole_none:
  "\<forall>(keywords, role) \<in> set roleRules. \<forall>k \<in> set keywords. \<not> str_includes (toLowerCase task) k
   \<Longrightarrow> inferExpertRole task = ''code_expert''"
  by (simp add: inferExpertRole_def roleRules_def Let_def)

lemma inferExpertRole_security:
  "str_includes (toLowerCase task) ''security'' \<Longrightarrow> inferExpertRole task = ''security_expert''"
  by (simp add: inferExpertRole_def Let_def)

lemma inferExpertRole_audit:
  "inferExpertRole ''Security audit of auth module'' = ''security_expert''"
  by code_simp

lemma runShowdown_second_call:
  assumes "delegateTask env call w (cfg_task cfg)
             (map_option capabilityName (cfg_preferredCapability cfg)) = (Inr d, w1)"
  shows "\<exists>rest. w_calls (snd (runShowdown env call w cfg))
           = w_calls w @ [delegateCall cfg, createCall (requestedRole cfg)] @ rest"
proof -
  have c1: "w_calls w1 = w_calls w @ [delegateCall cfg]"
    using delegateTask_calls [of env call w cfg] assms by simp
  obtain rx w2 where x: "createExpert env call w1 (requestedRole cfg) = (rx, w2)"
    by (cases "createExpert env call w1 (requestedRole cfg)")
  have c2: "w_calls w2 = w_calls w1 @ [createCall (requestedRole cfg)]"
    using createExpert_calls [of env call w1 "requestedRole cfg"] x by simp
  show ?thesis
  proof (cases rx)
    case (Inl t)
    then have "runShowdown env call w cfg = (Inl t, w2)"
      using assms x by (simp add: runShowdown_def Let_def)
    then show ?thesis by (simp add: c1 c2)
  next
    case (Inr ex)
    obtain re w3 where e: "executeExpert env call w2 (ce_expertId ex) (expertTask cfg d) = (re, w3)"
      by (cases "executeExpert env call w2 (ce_expertId ex) (expertTask cfg d)")
    have c3: "w_calls w3 = w_calls w2 @ [executeCall (ce_expertId ex) (expertTask cfg d)]"
      using executeExpert_calls [of env call w2 "ce_expertId ex" "expertTask cfg d"] e by simp
    show ?thesis
    proof (cases re)
      case (Inl t)
      then have "runShowdown env call w cfg = (Inl t, w3)"
        using assms x e \<open>rx = Inr ex\<close> by (simp add: runShowdown_def Let_def)
      then show ?thesis by (simp add: c1 c2 c3)
    next
      case (Inr ee)
      obtain k where
        "w_calls (snd (voteLoop env call (buildProposal (numberToString env) d ee)
            (configuredStrategies cfg) [] [] w3))
         = w_calls w3 @ map (voteCall (buildProposal (numberToString env) d ee))
                          (take k (configuredStrategies cfg))"
        using voteLoop_calls [of "configuredStrategies cfg" env call
            "buildProposal (numberToString env) d ee" "[]" "[]" w3] by blast
      then show ?thesis
        using runShowdown_votes_world [OF assms, of ex w2 ee w3] x e \<open>rx = Inr ex\<close> Inr
        by (simp add: c1 c2 c3)
    qed
  qed
qed

text \<open>
  Claim C7. \<open>inferExpertRole\<close> is the first rule of the table \<open>roleRules\<close> one of whose
  keywords occurs in the lower-cased task, and \<open>code_expert\<close> when no rule has one; two
  tasks that differ in the case of their letters only get the same role. The task
  \<open>Security audit of auth module\<close> gives \<open>security_expert\<close>, a task with no keyword
  gives \<open>code_expert\<close>, and a task with both \<open>security\<close> and \<open>test\<close> gives
  \<open>security_expert\<close>. The role that \<open>runShowdown\<close> sends to the creation operation, in
  the second call of the run, is \<open>config.expertRole\<close> when the configuration has it and
  the inferred role only otherwise.
\<close>

theorem inferExpertRole_first_match:
  "inferExpertRole task = firstMatchingRole task
   \<and> (toLowerCase task = toLowerCase task' \<longrightarrow> inferExpertRole task = inferExpertRole task')
   \<and> inferExpertRole ''Security audit of auth module'' = ''security_expert''
   \<and> ((\<forall>(keywords, role) \<in> set roleRules. \<forall>k \<in> set keywords.
          \<not> str_includes (toLowerCase task) k) \<longrightarrow> inferExpertRole task = ''code_expert'')
   \<and> (str_includes (toLowerCase task) ''security'' \<and> str_includes (toLowerCase task) ''test''
        \<longrightarrow> inferExpertRole task = ''security_expert'')
   \<and> (delegateTask env call w (cfg_task cfg)
          (map_option capabilityName (cfg_preferredCapability cfg)) = (Inr d, w1) \<longrightarrow>
        w_calls (snd (runShowdown env call w cfg)) ! Suc (length (w_calls w))
          = createCall (case cfg_expertRole cfg of
                          Some role \<Rightarrow> role
                        | None \<Rightarrow> inferExpertRole (cfg_task cfg)))"
proof -
  have r: "w_calls (snd (runShowdown env call w cfg)) ! Suc (length (w_calls w))
          = createCall (case cfg_expertRole cfg of
                          Some role \<Rightarrow> role
                        | None \<Rightarrow> inferExpertRole (cfg_task cfg))"
    if h: "delegateTask env call w (cfg_task cfg)
          (map_option capabilityName (cfg_preferredCapability cfg)) = (Inr d, w1)"
  proof -
    obtain rest where "w_calls (snd (runShowdown env call w cfg))
           = w_calls w @ [delegateCall cfg, createCall (requestedRole cfg)] @ rest"
      using runShowdown_second_call [OF h] by blast
    then have "w_calls (snd (runShowdown env call w cfg)) ! Suc (length (w_calls w))
               = createCall (requestedRole cfg)"
      by (simp add: nth_append)
    then show ?thesis
      by (simp add: requestedRole_def split: option.splits)
  qed
  show ?thesis
    using inferExpertRole_table inferExpertRole_lower inferExpertRole_audit
      inferExpertRole_none [of task] inferExpertRole_security r
    by blast
qed


text \<open>
  Two spellings of one task with both \<open>security\<close> and \<open>test\<close>, a task with no keyword,
  and the creation call of the sample run without and with \<open>expertRole\<close>.
\<close>

theorem inferExpertRole_first_match_witness:
  "inferExpertRole ''Add SECURITY tests'' = ''security_expert''
   \<and> inferExpertRole ''add security TESTS'' = ''security_expert''
   \<and> inferExpertRole ''Refactor the parser'' = ''code_expert''
   \<and> w_calls (snd (runShowdown sampleEnv (sampleCaller True neverFails) world0
         (sampleConfig ''Add SECURITY tests'' None))) ! 1
       = (''create_expert'', [(''role'', ''security_expert'')])
   \<and> w_calls (snd (runShowdown sampleEnv (sampleCaller True neverFails) world0
         ((sampleConfig ''Add SECURITY tests'' None)\<lparr>cfg_expertRole := Some ''ux_expert''\<rparr>))) ! 1
       = (''create_expert'', [(''role'', ''ux_expert'')])"
proof -
  have l: "toLowerCase ''Add SECURITY tests'' = toLowerCase ''add security TESTS''"
    by code_simp
  have s: "str_includes (toLowerCase ''Add SECURITY tests'') ''security''
           \<and> str_includes (toLowerCase ''Add SECURITY tests'') ''test''"
    by code_simp
  have n: "\<forall>(keywords, role) \<in> set roleRules. \<forall>k \<in> set keywords.
             \<not> str_includes (toLowerCase ''Refactor the parser'') k"
    by code_simp
  have d: "delegateTask sampleEnv (sampleCaller True neverFails) world0 (cfg_task c)
             (map_option capabilityName (cfg_preferredCapability c))
           = (Inr sampleDelegation, \<lparr>w_gateway = 1, w_calls = [delegateCall c]\<rparr>)" for c
    by (simp add: delegateTask_def callTool_def sampleCaller_def neverFails_def world0_def
        sampleEnv_def delegateCall_def split: option.splits)
  have a: "inferExpertRole ''Add SECURITY tests'' = ''security_expert''"
    using inferExpertRole_first_match [of "''Add SECURITY tests''"] s by blast
  have b: "inferExpertRole ''add security TESTS'' = ''security_expert''"
    using inferExpertRole_first_match [of "''Add SECURITY tests''" "''add security TESTS''"] l a by metis
  have c: "inferExpertRole ''Refactor the parser'' = ''code_expert''"
    using inferExpertRole_first_match [of "''Refactor the parser''"] n by blast
  have e: "w_calls (snd (runShowdown sampleEnv (sampleCaller True neverFails) world0
         (sampleConfig ''Add SECURITY tests'' None))) ! 1
       = (''create_expert'', [(''role'', ''security_expert'')])"
  proof -
    have "w_calls (snd (runShowdown sampleEnv (sampleCaller True neverFails) world0
            (sampleConfig ''Add SECURITY tests'' None))) ! Suc (length (w_calls world0))
          = createCall (case cfg_expertRole (sampleConfig ''Add SECURITY tests'' None) of
                          Some role \<Rightarrow> role
                        | None \<Rightarrow> inferExpertRole
                            (cfg_task (sampleConfig ''Add SECURITY tests'' None)))"
      using inferExpertRole_first_match [of "''Add SECURITY tests''" "''Add SECURITY tests''" sampleEnv
          "sampleCaller True neverFails" world0 "sampleConfig ''Add SECURITY tests'' None"
          sampleDelegation
          "\<lparr>w_gateway = 1, w_calls = [delegateCall (sampleConfig ''Add SECURITY tests'' None)]\<rparr>"]
        d [of "sampleConfig ''Add SECURITY tests'' None"]
      by blast
    then show ?thesis
      by (simp add: sampleConfig_def world0_def createCall_def a)
  qed
  have f: "w_calls (snd (runShowdown sampleEnv (sampleCaller True neverFails) world0
         ((sampleConfig ''Add SECURITY tests'' None)\<lparr>cfg_expertRole := Some ''ux_expert''\<rparr>))) ! 1
       = (''create_expert'', [(''role'', ''ux_expert'')])"
  proof -
    have "w_calls (snd (runShowdown sampleEnv (sampleCaller True neverFails) world0
            ((sampleConfig ''Add SECURITY tests'' None)\<lparr>cfg_expertRole := Some ''ux_expert''\<rparr>)))
            ! Suc (length (w_calls world0))
          = createCall (case cfg_expertRole ((sampleConfig ''Add SECURITY tests'' None)
                               \<lparr>cfg_expertRole := Some ''ux_expert''\<rparr>) of
                          Some role \<Rightarrow> role
                        | None \<Rightarrow> inferExpertRole
                            (cfg_task ((sampleConfig ''Add SECURITY tests'' None)
                               \<lparr>cfg_expertRole := Some ''ux_expert''\<rparr>)))"
      using inferExpertRole_first_match [of "''Add SECURITY tests''" "''Add SECURITY tests''" sampleEnv
          "sampleCaller True neverFails" world0
          "(sampleConfig ''Add SECURITY tests'' None)\<lparr>cfg_expertRole := Some ''ux_expert''\<rparr>"
          sampleDelegation
          "\<lparr>w_gateway = 1, w_calls = [delegateCall ((sampleConfig ''Add SECURITY tests'' None)
                \<lparr>cfg_expertRole := Some ''ux_expert''\<rparr>)]\<rparr>"]
        d [of "(sampleConfig ''Add SECURITY tests'' None)\<lparr>cfg_expertRole := Some ''ux_expert''\<rparr>"]
      by blast
    then show ?thesis
      by (simp add: sampleConfig_def world0_def createCall_def)
  qed
  from a b c e f show ?thesis by blast
qed

section \<open>The result of the voting loop\<close>

lemma failures_mem:
  assumes "length ss = length os" and "i < length ss" and "os ! i = Inl t"
    and "errorMessage t = Inr m"
  shows "strategyName (ss ! i) @ '' vote failed: '' @ m \<in> set (failures ss os)"
proof -
  have "(ss ! i, os ! i) \<in> set (zip ss os)"
    using assms(1,2) by (metis in_set_zip fst_conv snd_conv)
  then have "(ss ! i, Inl t) \<in> set (filter (\<lambda>(s, out). isl out) (zip ss os))"
    using assms(3) by simp
  then show ?thesis
    unfolding failures_def using assms(4) by force
qed

text \<open>
  Voting failures that have a message are all recorded. Take a run whose routing,
  creation and execution steps have succeeded, and let \<open>os\<close> be the outcomes of the
  voting calls for the configured strategies \<open>ss\<close>, every failure among them with a
  message. Then \<open>runShowdown\<close> returns a result. The errors of the result are the strings
  \<open><strategy> vote failed: <message>\<close> of the strategies whose call failed, in the order
  of the calls, and each failed call has its string among them; the strategy results are
  the projections of the votes that came back; one voting call has been made for every
  configured strategy, after a failure as well. When every call fails, the strategy
  results are empty, the agreement is 0 and there is one error for each strategy.
\<close>

lemma vote_failures_recorded:
  assumes "delegateTask env call w (cfg_task cfg)
             (map_option capabilityName (cfg_preferredCapability cfg)) = (Inr d, w1)"
    and "createExpert env call w1 (requestedRole cfg) = (Inr x, w2)"
    and "executeExpert env call w2 (ce_expertId x) (expertTask cfg d) = (Inr e, w3)"
    and "ss = configuredStrategies cfg"
    and "p = buildProposal (numberToString env) d e"
    and "os = voteOutcomes env call p ss w3"
    and "failuresHaveMessages os"
  shows "\<exists>r w'. runShowdown env call w cfg = (Inr r, w')
     \<and> res_errors r = failures ss os
     \<and> (\<forall>i t m. i < length ss \<and> os ! i = Inl t \<and> errorMessage t = Inr m \<longrightarrow>
           strategyName (ss ! i) @ '' vote failed: '' @ m \<in> set (res_errors r))
     \<and> res_strategyResults r = successes os
     \<and> w_calls w' = w_calls w3 @ map (voteCall p) ss
     \<and> ((\<forall>out \<in> set os. isl out) \<longrightarrow>
           res_strategyResults r = [] \<and> res_strategyAgreement r = 0
           \<and> length (res_errors r) = length ss)"
proof -
  let ?r = "\<lparr>res_evaluation = buildEvaluation cfg d x e,
             res_strategyResults = successes os,
             res_strategyAgreement = computeAgreement (successes os),
             res_errors = failures ss os\<rparr>"
  have msgs: "failuresHaveMessages
           (voteOutcomes env call (buildProposal (numberToString env) d e)
              (configuredStrategies cfg) w3)"
    using assms(4-7) by simp
  obtain w' where run: "runShowdown env call w cfg = (Inr ?r, w')"
    and cl: "w_calls w' = w_calls w3 @ map (voteCall p) ss"
    using runShowdown_success [OF assms(1-3) msgs] assms(4-6) by auto
  have len: "length ss = length os"
    using assms(6) by (simp add: length_voteOutcomes)
  have er: "res_errors ?r = failures ss os" by simp
  have sr: "res_strategyResults ?r = successes os" by simp
  have mem: "\<forall>i t m. i < length ss \<and> os ! i = Inl t \<and> errorMessage t = Inr m \<longrightarrow>
           strategyName (ss ! i) @ '' vote failed: '' @ m \<in> set (res_errors ?r)"
    unfolding er using failures_mem [OF len] by blast
  have allf: "res_strategyResults ?r = [] \<and> res_strategyAgreement ?r = 0
           \<and> length (res_errors ?r) = length ss"
    if a: "\<forall>out \<in> set os. isl out"
  proof -
    have s0: "successes os = []"
      using successes_all_fail [OF a] by simp
    have "length (res_errors ?r) = length ss"
      unfolding er using failures_all_fail [OF len a] .
    with s0 show ?thesis by (simp add: computeAgreement_def)
  qed
  from run er sr mem cl allf show ?thesis by blast
qed

lemma runShowdown_lengths:
  assumes "fst (runShowdown env call w cfg) = Inr r"
  shows "length (res_strategyResults r) + length (res_errors r) = length (configuredStrategies cfg)"
proof -
  obtain d w1 x w2 e w3 where
    s: "delegateTask env call w (cfg_task cfg)
             (map_option capabilityName (cfg_preferredCapability cfg)) = (Inr d, w1)"
       "createExpert env call w1 (requestedRole cfg) = (Inr x, w2)"
       "executeExpert env call w2 (ce_expertId x) (expertTask cfg d) = (Inr e, w3)"
       "failuresHaveMessages
           (voteOutcomes env call (buildProposal (numberToString env) d e)
              (configuredStrategies cfg) w3)"
    using assms by (rule runShowdown_stages)
  show ?thesis
    using runShowdown_success [OF s] assms
      length_successes_failures [of "configuredStrategies cfg"
        "voteOutcomes env call (buildProposal (numberToString env) d e)
              (configuredStrategies cfg) w3"]
    by (auto simp add: length_voteOutcomes)
qed

text \<open>
  Claim C2. In the result of a run that returns one, the strategy results and the errors
  are together as many as the strategies attempted: the length of \<open>config.strategies\<close>
  when the configuration has it, 5 otherwise.
\<close>

theorem results_and_errors_cover_strategies:
  assumes "fst (runShowdown env call w cfg) = Inr r"
  shows "length (res_strategyResults r) + length (res_errors r) = length (configuredStrategies cfg)
       \<and> length (configuredStrategies cfg) =
           (case cfg_strategies cfg of Some ss \<Rightarrow> length ss | None \<Rightarrow> 5)"
proof -
  have "length (configuredStrategies cfg) =
           (case cfg_strategies cfg of Some ss \<Rightarrow> length ss | None \<Rightarrow> 5)"
    by (simp add: configuredStrategies_def VOTING_STRATEGIES_def split: option.splits)
  with runShowdown_lengths [OF assms] show ?thesis by simp
qed

text \<open>
  Claim C5. A run that returns a result has invoked the gateway with one routing call,
  then one creation call, then one execution call, then one voting call for each
  configured strategy in the configured order, and with nothing else; the arguments are
  built from the configuration and from the responses of the steps before. Without
  \<open>config.strategies\<close> the voting calls carry the five strategies \<open>simple_majority\<close>,
  \<open>supermajority\<close>, \<open>unanimous\<close>, \<open>proof_of_learning\<close>, \<open>higher_order\<close> in this order;
  with two strategies configured there are two voting calls, and two strategy results
  when neither call fails.
\<close>

theorem invocation_order:
  assumes "fst (runShowdown env call w cfg) = Inr r"
  shows "(\<exists>d w1 x w2 e w3.
            delegateTask env call w (cfg_task cfg)
              (map_option capabilityName (cfg_preferredCapability cfg)) = (Inr d, w1)
          \<and> createExpert env call w1 (requestedRole cfg) = (Inr x, w2)
          \<and> executeExpert env call w2 (ce_expertId x) (expertTask cfg d) = (Inr e, w3)
          \<and> w_calls (snd (runShowdown env call w cfg)) =
              w_calls w @ [delegateCall cfg, createCall (requestedRole cfg),
                           executeCall (ce_expertId x) (expertTask cfg d)]
              @ map (voteCall (buildProposal (numberToString env) d e)) (configuredStrategies cfg))
       \<and> (cfg_strategies cfg = None \<longrightarrow>
            map strategyName (configuredStrategies cfg) =
              [''simple_majority'', ''supermajority'', ''unanimous'', ''proof_of_learning'',
               ''higher_order''])
       \<and> (\<forall>a b. cfg_strategies cfg = Some [a, b] \<longrightarrow>
            configuredStrategies cfg = [a, b]
            \<and> (res_errors r = [] \<longrightarrow> length (res_strategyResults r) = 2))"
proof -
  obtain d w1 x w2 e w3 where
    s: "delegateTask env call w (cfg_task cfg)
             (map_option capabilityName (cfg_preferredCapability cfg)) = (Inr d, w1)"
       "createExpert env call w1 (requestedRole cfg) = (Inr x, w2)"
       "executeExpert env call w2 (ce_expertId x) (expertTask cfg d) = (Inr e, w3)"
    and m: "failuresHaveMessages
           (voteOutcomes env call (buildProposal (numberToString env) d e)
              (configuredStrategies cfg) w3)"
    using assms by (rule runShowdown_stages)
  have c1: "w_calls w1 = w_calls w @ [delegateCall cfg]"
    using delegateTask_calls [of env call w cfg] s(1) by simp
  have c2: "w_calls w2 = w_calls w1 @ [createCall (requestedRole cfg)]"
    using createExpert_calls [of env call w1 "requestedRole cfg"] s(2) by simp
  have c3: "w_calls w3 = w_calls w2 @ [executeCall (ce_expertId x) (expertTask cfg d)]"
    using executeExpert_calls [of env call w2 "ce_expertId x" "expertTask cfg d"] s(3) by simp
  have calls: "w_calls (snd (runShowdown env call w cfg)) =
              w_calls w @ [delegateCall cfg, createCall (requestedRole cfg),
                           executeCall (ce_expertId x) (expertTask cfg d)]
              @ map (voteCall (buildProposal (numberToString env) d e)) (configuredStrategies cfg)"
    using runShowdown_success [OF s m] by (auto simp add: c1 c2 c3)
  have dflt: "map strategyName (configuredStrategies cfg) =
              [''simple_majority'', ''supermajority'', ''unanimous'', ''proof_of_learning'',
               ''higher_order'']" if "cfg_strategies cfg = None"
    using that by (simp add: configuredStrategies_def VOTING_STRATEGIES_def)
  have two: "configuredStrategies cfg = [a, b]
            \<and> (res_errors r = [] \<longrightarrow> length (res_strategyResults r) = 2)"
    if h: "cfg_strategies cfg = Some [a, b]" for a b
  proof -
    have cs: "configuredStrategies cfg = [a, b]"
      using h by (simp add: configuredStrategies_def)
    have "length (res_strategyResults r) + length (res_errors r) = 2"
      using runShowdown_lengths [OF assms] cs by simp
    with cs show ?thesis by auto
  qed
  from s calls dflt two show ?thesis by blast
qed

section \<open>Fatal failures\<close>

lemma validated_Inl:
  "validated parse res = Inl t \<longleftrightarrow> res = Inl t \<or> (\<exists>raw. res = Inr raw \<and> parse raw = Inl t)"
  by (cases res) (simp_all add: validated_def)

lemma validated_Inr:
  "validated parse res = Inr v \<longleftrightarrow> (\<exists>raw. res = Inr raw \<and> parse raw = Inr v)"
  by (cases res) (simp_all add: validated_def)

lemma delegateTask_validated:
  "fst (delegateTask env call w (cfg_task cfg)
          (map_option capabilityName (cfg_preferredCapability cfg)))
   = validated (parseDelegateResponse env)
       (fst (call (w_gateway w) (fst (delegateCall cfg)) (snd (delegateCall cfg))))"
  by (auto simp add: delegateTask_def callTool_def delegateCall_def validated_def Let_def
      split: prod.splits sum.splits option.splits)

lemma createExpert_validated:
  "fst (createExpert env call w role)
   = validated (parseCreateExpertResponse env)
       (fst (call (w_gateway w) (fst (createCall role)) (snd (createCall role))))"
  by (auto simp add: createExpert_def callTool_def createCall_def validated_def
      split: prod.splits sum.splits)

lemma executeExpert_validated:
  "fst (executeExpert env call w expertId task)
   = validated (parseExecuteExpertResponse env)
       (fst (call (w_gateway w) (fst (executeCall expertId task))
          (snd (executeCall expertId task))))"
  by (auto simp add: executeExpert_def callTool_def executeCall_def validated_def
      split: prod.splits sum.splits)

lemma runShowdown_fails_1:
  assumes "delegateTask env call w (cfg_task cfg)
             (map_option capabilityName (cfg_preferredCapability cfg)) = (Inl t, w1)"
  shows "runShowdown env call w cfg = (Inl t, w1) \<and> w_calls w1 = w_calls w @ [delegateCall cfg]"
  using assms delegateTask_calls [of env call w cfg]
  by (simp add: runShowdown_def Let_def)

lemma runShowdown_fails_2:
  assumes "delegateTask env call w (cfg_task cfg)
             (map_option capabilityName (cfg_preferredCapability cfg)) = (Inr d, w1)"
    and "createExpert env call w1 (requestedRole cfg) = (Inl t, w2)"
  shows "runShowdown env call w cfg = (Inl t, w2)
       \<and> w_calls w2 = w_calls w @ [delegateCall cfg, createCall (requestedRole cfg)]"
  using assms delegateTask_calls [of env call w cfg]
    createExpert_calls [of env call w1 "requestedRole cfg"]
  by (simp add: runShowdown_def Let_def)

lemma runShowdown_fails_3:
  assumes "delegateTask env call w (cfg_task cfg)
             (map_option capabilityName (cfg_preferredCapability cfg)) = (Inr d, w1)"
    and "createExpert env call w1 (requestedRole cfg) = (Inr x, w2)"
    and "executeExpert env call w2 (ce_expertId x) (expertTask cfg d) = (Inl t, w3)"
  shows "runShowdown env call w cfg = (Inl t, w3)
       \<and> w_calls w3 = w_calls w @ [delegateCall cfg, createCall (requestedRole cfg),
                                    executeCall (ce_expertId x) (expertTask cfg d)]"
  using assms delegateTask_calls [of env call w cfg]
    createExpert_calls [of env call w1 "requestedRole cfg"]
    executeExpert_calls [of env call w2 "ce_expertId x" "expertTask cfg d"]
  by (simp add: runShowdown_def Let_def)

text \<open>
  A run that fails has failed in one of the three first steps, before any voting call, or
  in the \<open>catch\<close> block of the voting loop after the three steps succeeded.
\<close>

lemma runShowdown_fails_cases:
  assumes "fst (runShowdown env call w cfg) = Inl t"
  shows "(\<forall>c \<in> set (drop (length (w_calls w)) (w_calls (snd (runShowdown env call w cfg)))).
            fst c \<noteq> ''consensus_vote'')
       \<or> (\<exists>d w1 x w2 e w3.
             delegateTask env call w (cfg_task cfg)
               (map_option capabilityName (cfg_preferredCapability cfg)) = (Inr d, w1)
           \<and> createExpert env call w1 (requestedRole cfg) = (Inr x, w2)
           \<and> executeExpert env call w2 (ce_expertId x) (expertTask cfg d) = (Inr e, w3)
           \<and> fst (voteLoop env call (buildProposal (numberToString env) d e)
                     (configuredStrategies cfg) [] [] w3) = Inl t)"
proof -
  obtain rd w1 where d: "delegateTask env call w (cfg_task cfg)
             (map_option capabilityName (cfg_preferredCapability cfg)) = (rd, w1)"
    by (cases "delegateTask env call w (cfg_task cfg)
             (map_option capabilityName (cfg_preferredCapability cfg))")
  show ?thesis
  proof (cases rd)
    case (Inl t1)
    then show ?thesis
      using runShowdown_fails_1 [of env call w cfg t1 w1] d
      by (simp add: delegateCall_def)
  next
    case (Inr dd)
    note rd = this
    obtain rx w2 where x: "createExpert env call w1 (requestedRole cfg) = (rx, w2)"
      by (cases "createExpert env call w1 (requestedRole cfg)")
    show ?thesis
    proof (cases rx)
      case (Inl t2)
      then show ?thesis
        using runShowdown_fails_2 [of env call w cfg dd w1 t2 w2] d x rd
        by (simp add: delegateCall_def createCall_def)
    next
      case (Inr xx)
      note rx = this
      obtain re w3 where e: "executeExpert env call w2 (ce_expertId xx) (expertTask cfg dd) = (re, w3)"
        by (cases "executeExpert env call w2 (ce_expertId xx) (expertTask cfg dd)")
      show ?thesis
      proof (cases re)
        case (Inl t3)
        then show ?thesis
          using runShowdown_fails_3 [of env call w cfg dd w1 xx w2 t3 w3] d x e rd rx
          by (simp add: delegateCall_def createCall_def executeCall_def)
      next
        case (Inr ee)
        have s: "delegateTask env call w (cfg_task cfg)
                   (map_option capabilityName (cfg_preferredCapability cfg)) = (Inr dd, w1)"
          "createExpert env call w1 (requestedRole cfg) = (Inr xx, w2)"
          "executeExpert env call w2 (ce_expertId xx) (expertTask cfg dd) = (Inr ee, w3)"
          using d x e rd rx Inr by simp_all
        have "fst (voteLoop env call (buildProposal (numberToString env) dd ee)
                     (configuredStrategies cfg) [] [] w3) = Inl t"
          using assms runShowdown_votes [OF s]
          by (auto split: prod.splits sum.splits)
        with s show ?thesis by blast
      qed
    qed
  qed
qed

text \<open>
  Claim C8. When the routing step fails, or the creation step after a routing that
  succeeded, or the execution step after both, \<open>runShowdown\<close> fails with the same thrown
  value and returns no result, having invoked the gateway for the steps up to the failing
  one only, so with no voting call. A run that fails has either made no voting call, or
  passed the three steps and failed in the \<open>catch\<close> block of the voting loop. A step
  fails exactly when its gateway call throws or the validator rejects what the call
  returned.
\<close>

theorem fatal_failures_propagate:
  "(delegateTask env call w (cfg_task cfg)
        (map_option capabilityName (cfg_preferredCapability cfg)) = (Inl t, w1)
      \<longrightarrow> runShowdown env call w cfg = (Inl t, w1)
          \<and> w_calls w1 = w_calls w @ [delegateCall cfg])
   \<and> (delegateTask env call w (cfg_task cfg)
        (map_option capabilityName (cfg_preferredCapability cfg)) = (Inr d, w1)
      \<and> createExpert env call w1 (requestedRole cfg) = (Inl t, w2)
      \<longrightarrow> runShowdown env call w cfg = (Inl t, w2)
          \<and> w_calls w2 = w_calls w @ [delegateCall cfg, createCall (requestedRole cfg)])
   \<and> (delegateTask env call w (cfg_task cfg)
        (map_option capabilityName (cfg_preferredCapability cfg)) = (Inr d, w1)
      \<and> createExpert env call w1 (requestedRole cfg) = (Inr x, w2)
      \<and> executeExpert env call w2 (ce_expertId x) (expertTask cfg d) = (Inl t, w3)
      \<longrightarrow> runShowdown env call w cfg = (Inl t, w3)
          \<and> w_calls w3 = w_calls w @ [delegateCall cfg, createCall (requestedRole cfg),
                                       executeCall (ce_expertId x) (expertTask cfg d)])
   \<and> (fst (runShowdown env call w cfg) = Inl t \<longrightarrow>
        (\<forall>c \<in> set (drop (length (w_calls w)) (w_calls (snd (runShowdown env call w cfg)))).
           fst c \<noteq> ''consensus_vote'')
        \<or> (\<exists>d w1 x w2 e w3.
              delegateTask env call w (cfg_task cfg)
                (map_option capabilityName (cfg_preferredCapability cfg)) = (Inr d, w1)
            \<and> createExpert env call w1 (requestedRole cfg) = (Inr x, w2)
            \<and> executeExpert env call w2 (ce_expertId x) (expertTask cfg d) = (Inr e, w3)
            \<and> fst (voteLoop env call (buildProposal (numberToString env) d e)
                      (configuredStrategies cfg) [] [] w3) = Inl t))
   \<and> fst (delegateTask env call w (cfg_task cfg)
             (map_option capabilityName (cfg_preferredCapability cfg)))
       = validated (parseDelegateResponse env)
           (fst (call (w_gateway w) (fst (delegateCall cfg)) (snd (delegateCall cfg))))
   \<and> fst (createExpert env call w1 role)
       = validated (parseCreateExpertResponse env)
           (fst (call (w_gateway w1) (fst (createCall role)) (snd (createCall role))))
   \<and> fst (executeExpert env call w2 expertId task)
       = validated (parseExecuteExpertResponse env)
           (fst (call (w_gateway w2) (fst (executeCall expertId task))
              (snd (executeCall expertId task))))
   \<and> (validated parse res = Inl t \<longleftrightarrow>
        res = Inl t \<or> (\<exists>raw. res = Inr raw \<and> parse raw = Inl t))"
  using runShowdown_fails_1 [of env call w cfg t w1]
    runShowdown_fails_2 [of env call w cfg d w1 t w2]
    runShowdown_fails_3 [of env call w cfg d w1 x w2 t w3]
    runShowdown_fails_cases [of env call w cfg t]
    delegateTask_validated [of env call w cfg]
    createExpert_validated [of env call w1 role]
    executeExpert_validated [of env call w2 expertId task]
    validated_Inl [of parse res t]
  by blast

section \<open>Distinct strategies\<close>

lemma strategyName_inj: "strategyName a = strategyName b \<Longrightarrow> a = b"
  by (cases a; cases b) simp_all

lemma successes_strategies:
  "map sr_strategy (successes os)
     = map (\<lambda>out. vr_strategy (projr out)) (filter (\<lambda>out. \<not> isl out) os)"
  by (simp add: successes_def toStrategyResult_def)

lemma successes_echo:
  assumes "length ss = length os"
    and "\<forall>(s, out) \<in> set (zip ss os). \<forall>v. out = Inr v \<longrightarrow> vr_strategy v = strategyName s"
  shows "map sr_strategy (successes os)
           = map (\<lambda>p. strategyName (fst p)) (filter (\<lambda>p. \<not> isl (snd p)) (zip ss os))"
  using assms
proof (induction ss os rule: list_induct2)
  case Nil
  then show ?case by (simp add: successes_def)
next
  case (Cons s ss out os)
  then have ih: "map sr_strategy (successes os)
           = map (\<lambda>p. strategyName (fst p)) (filter (\<lambda>p. \<not> isl (snd p)) (zip ss os))"
    by simp
  show ?case
  proof (cases out)
    case (Inl t)
    then show ?thesis using ih by (simp add: successes_def)
  next
    case (Inr v)
    then have "vr_strategy v = strategyName s" using Cons.prems by simp
    then show ?thesis using ih Inr by (simp add: successes_def toStrategyResult_def)
  qed
qed

lemma distinct_filter_zip:
  assumes "distinct ss"
  shows "distinct (map (\<lambda>p. strategyName (fst p)) (filter P (zip ss os)))"
proof -
  have d1: "distinct (map fst (filter P (zip ss os)))"
    by (rule distinct_map_filter) (simp add: assms map_fst_zip_take)
  have inj: "inj_on strategyName A" for A
    by (rule inj_onI) (rule strategyName_inj)
  have d2: "distinct (map strategyName (map fst (filter P (zip ss os))))"
    unfolding distinct_map [of strategyName "map fst (filter P (zip ss os))"]
    using d1 inj by blast
  from d2 show ?thesis by (simp add: comp_def)
qed

text \<open>
  Claim C9, amended. Take a run whose routing, creation and execution steps have
  succeeded, and let \<open>os\<close> be the outcomes of the voting calls for the configured
  strategies \<open>ss\<close>. The run returns a result when every failure among the outcomes has a
  message. In every result it returns, the strategy of each entry of \<open>strategyResults\<close>
  is the strategy that the response of its voting call reports, in the order of the
  calls; and the strategies of the entries are pairwise distinct when the configured
  strategies are pairwise distinct and every vote that came back reports the strategy it
  was asked for.
\<close>

theorem strategies_distinct_when_echoed:
  assumes "delegateTask env call w (cfg_task cfg)
             (map_option capabilityName (cfg_preferredCapability cfg)) = (Inr d, w1)"
    and "createExpert env call w1 (requestedRole cfg) = (Inr x, w2)"
    and "executeExpert env call w2 (ce_expertId x) (expertTask cfg d) = (Inr e, w3)"
    and "ss = configuredStrategies cfg"
    and "os = voteOutcomes env call (buildProposal (numberToString env) d e) ss w3"
  shows "(failuresHaveMessages os \<longrightarrow> (\<exists>r w'. runShowdown env call w cfg = (Inr r, w')))
     \<and> (\<forall>r. fst (runShowdown env call w cfg) = Inr r \<longrightarrow>
           map sr_strategy (res_strategyResults r)
             = map (\<lambda>out. vr_strategy (projr out)) (filter (\<lambda>out. \<not> isl out) os)
         \<and> (distinct ss
             \<and> (\<forall>(s, out) \<in> set (zip ss os).
                   \<forall>v. out = Inr v \<longrightarrow> vr_strategy v = strategyName s)
             \<longrightarrow> distinct (map sr_strategy (res_strategyResults r))))"
proof -
  have ret: "\<exists>r w'. runShowdown env call w cfg = (Inr r, w')" if "failuresHaveMessages os"
    using runShowdown_success [OF assms(1-3)] that assms(4,5) by blast
  have len: "length ss = length os"
    using assms(5) by (simp add: length_voteOutcomes)
  have res: "map sr_strategy (res_strategyResults r)
             = map (\<lambda>out. vr_strategy (projr out)) (filter (\<lambda>out. \<not> isl out) os)
         \<and> (distinct ss
             \<and> (\<forall>(s, out) \<in> set (zip ss os).
                   \<forall>v. out = Inr v \<longrightarrow> vr_strategy v = strategyName s)
             \<longrightarrow> distinct (map sr_strategy (res_strategyResults r)))"
    if r: "fst (runShowdown env call w cfg) = Inr r" for r
  proof -
    obtain d' w1' x' w2' e' w3' where
      s: "delegateTask env call w (cfg_task cfg)
             (map_option capabilityName (cfg_preferredCapability cfg)) = (Inr d', w1')"
         "createExpert env call w1' (requestedRole cfg) = (Inr x', w2')"
         "executeExpert env call w2' (ce_expertId x') (expertTask cfg d') = (Inr e', w3')"
         "failuresHaveMessages
           (voteOutcomes env call (buildProposal (numberToString env) d' e')
              (configuredStrategies cfg) w3')"
      using r by (rule runShowdown_stages)
    from s(1) assms(1) have "d' = d" "w1' = w1" by simp_all
    with s(2) assms(2) have "x' = x" "w2' = w2" by simp_all
    with s(3) assms(3) \<open>d' = d\<close> have "e' = e" "w3' = w3" by simp_all
    with s(4) \<open>d' = d\<close> assms(4,5) have m: "failuresHaveMessages
           (voteOutcomes env call (buildProposal (numberToString env) d e)
              (configuredStrategies cfg) w3)"
      by simp
    have sr: "res_strategyResults r = successes os"
      using runShowdown_success [OF assms(1-3) m] r assms(4,5) by auto
    have a: "map sr_strategy (res_strategyResults r)
         = map (\<lambda>out. vr_strategy (projr out)) (filter (\<lambda>out. \<not> isl out) os)"
      unfolding sr by (rule successes_strategies)
    have b: "distinct (map sr_strategy (res_strategyResults r))"
      if "distinct ss"
        and "\<forall>(s, out) \<in> set (zip ss os). \<forall>v. out = Inr v \<longrightarrow> vr_strategy v = strategyName s"
      unfolding sr successes_echo [OF len that(2)]
      using that(1) by (rule distinct_filter_zip)
    from a b show ?thesis by blast
  qed
  from ret res show ?thesis by blast
qed

section \<open>The role of the evaluation\<close>

text \<open>
  Claim C10. In the result of a run, \<open>evaluation.expertRole\<close> is the role of the
  validated response of the creation call, whatever role the call had asked for.
\<close>

theorem expertRole_from_creation_response:
  assumes "delegateTask env call w (cfg_task cfg)
             (map_option capabilityName (cfg_preferredCapability cfg)) = (Inr d, w1)"
    and "createExpert env call w1 (requestedRole cfg) = (Inr x, w2)"
    and "fst (runShowdown env call w cfg) = Inr r"
  shows "ev_expertRole (res_evaluation r) = ce_role x
       \<and> (\<exists>raw. fst (call (w_gateway w1) ''create_expert'' [(''role'', requestedRole cfg)]) = Inr raw
                \<and> parseCreateExpertResponse env raw = Inr x)"
proof -
  obtain d' w1' x' w2' e w3 where
    s: "delegateTask env call w (cfg_task cfg)
             (map_option capabilityName (cfg_preferredCapability cfg)) = (Inr d', w1')"
       "createExpert env call w1' (requestedRole cfg) = (Inr x', w2')"
       "executeExpert env call w2' (ce_expertId x') (expertTask cfg d') = (Inr e, w3)"
       "failuresHaveMessages
           (voteOutcomes env call (buildProposal (numberToString env) d' e)
              (configuredStrategies cfg) w3)"
    using assms(3) by (rule runShowdown_stages)
  from s(1) assms(1) have "d' = d" "w1' = w1" by simp_all
  with s(2) assms(2) have "x' = x" by simp
  then have "ev_expertRole (res_evaluation r) = ce_role x"
    using runShowdown_success [OF s] assms(3) by (auto simp: buildEvaluation_def)
  moreover have "validated (parseCreateExpertResponse env)
       (fst (call (w_gateway w1) (fst (createCall (requestedRole cfg)))
          (snd (createCall (requestedRole cfg))))) = Inr x"
    using createExpert_validated [of env call w1 "requestedRole cfg"] assms(2) by simp
  then have "\<exists>raw. fst (call (w_gateway w1) ''create_expert'' [(''role'', requestedRole cfg)]) = Inr raw
                \<and> parseCreateExpertResponse env raw = Inr x"
    by (simp add: validated_Inr createCall_def)
  ultimately show ?thesis by simp
qed

section \<open>The sample gateway, step by step\<close>

lemma sample_delegate:
  "\<not> fails ''delegate_to_model'' n \<Longrightarrow>
   delegateTask sampleEnv (sampleCaller echo fails) \<lparr>w_gateway = n, w_calls = cs\<rparr> (cfg_task c)
     (map_option capabilityName (cfg_preferredCapability c))
   = (Inr sampleDelegation, \<lparr>w_gateway = Suc n, w_calls = cs @ [delegateCall c]\<rparr>)"
  by (simp add: delegateTask_def callTool_def sampleCaller_def sampleEnv_def delegateCall_def
      split: option.splits)

lemma sample_create:
  "\<not> fails ''create_expert'' n \<Longrightarrow>
   createExpert sampleEnv (sampleCaller echo fails) \<lparr>w_gateway = n, w_calls = cs\<rparr> role
   = (Inr sampleExpert, \<lparr>w_gateway = Suc n, w_calls = cs @ [createCall role]\<rparr>)"
  by (simp add: createExpert_def callTool_def sampleCaller_def sampleEnv_def createCall_def)

lemma sample_execute:
  "\<not> fails ''execute_expert'' n \<Longrightarrow>
   executeExpert sampleEnv (sampleCaller echo fails) \<lparr>w_gateway = n, w_calls = cs\<rparr> i t
   = (Inr (sampleExecution ''Vitest''),
      \<lparr>w_gateway = Suc n, w_calls = cs @ [executeCall i t]\<rparr>)"
  by (simp add: executeExpert_def callTool_def sampleCaller_def sampleEnv_def executeCall_def)

lemma sample_step_fails:
  "fails ''delegate_to_model'' n \<Longrightarrow>
   delegateTask sampleEnv (sampleCaller echo fails) \<lparr>w_gateway = n, w_calls = cs\<rparr> (cfg_task c)
     (map_option capabilityName (cfg_preferredCapability c))
   = (Inl (newError ''vote timeout''),
      \<lparr>w_gateway = Suc n, w_calls = cs @ [delegateCall c]\<rparr>)"
  "fails ''create_expert'' n \<Longrightarrow>
   createExpert sampleEnv (sampleCaller echo fails) \<lparr>w_gateway = n, w_calls = cs\<rparr> role
   = (Inl (newError ''vote timeout''),
      \<lparr>w_gateway = Suc n, w_calls = cs @ [createCall role]\<rparr>)"
  "fails ''execute_expert'' n \<Longrightarrow>
   executeExpert sampleEnv (sampleCaller echo fails) \<lparr>w_gateway = n, w_calls = cs\<rparr> i t
   = (Inl (newError ''vote timeout''),
      \<lparr>w_gateway = Suc n, w_calls = cs @ [executeCall i t]\<rparr>)"
  by (simp_all add: delegateTask_def createExpert_def executeExpert_def callTool_def
      sampleCaller_def sampleEnv_def delegateCall_def createCall_def executeCall_def
      split: option.splits)

lemma sample_vote:
  "voteWithStrategy sampleEnv (sampleCaller echo fails) \<lparr>w_gateway = n, w_calls = cs\<rparr> p s
   = (if fails ''consensus_vote'' n then Inl (newError ''vote timeout'')
      else Inr (sampleVote (if echo then strategyName s else ''simple_majority'')
                  (if s = unanimous then rejected else approved)),
      \<lparr>w_gateway = Suc n, w_calls = cs @ [voteCall p s]\<rparr>)"
  by (cases s)
     (simp_all add: voteWithStrategy_def callTool_def sampleCaller_def sampleEnv_def voteCall_def)

lemma sample_run:
  assumes "\<not> fails ''delegate_to_model'' 0" and "\<not> fails ''create_expert'' 1"
    and "\<not> fails ''execute_expert'' 2"
  shows "delegateTask sampleEnv (sampleCaller echo fails) world0 (cfg_task c)
           (map_option capabilityName (cfg_preferredCapability c))
         = (Inr sampleDelegation, \<lparr>w_gateway = 1, w_calls = [delegateCall c]\<rparr>)"
    and "createExpert sampleEnv (sampleCaller echo fails)
           \<lparr>w_gateway = 1, w_calls = [delegateCall c]\<rparr> (requestedRole c)
         = (Inr sampleExpert,
            \<lparr>w_gateway = 2, w_calls = [delegateCall c, createCall (requestedRole c)]\<rparr>)"
    and "executeExpert sampleEnv (sampleCaller echo fails)
           \<lparr>w_gateway = 2, w_calls = [delegateCall c, createCall (requestedRole c)]\<rparr>
           (ce_expertId sampleExpert) (expertTask c sampleDelegation)
         = (Inr (sampleExecution ''Vitest''),
            \<lparr>w_gateway = 3,
              w_calls = [delegateCall c, createCall (requestedRole c),
                         executeCall (ce_expertId sampleExpert) (expertTask c sampleDelegation)]\<rparr>)"
  using assms sample_delegate [of fails 0 echo "[]" c]
    sample_create [of fails 1 echo "[delegateCall c]" "requestedRole c"]
    sample_execute [of fails 2 echo "[delegateCall c, createCall (requestedRole c)]"
      "ce_expertId sampleExpert" "expertTask c sampleDelegation"]
  by (simp_all add: world0_def numeral_2_eq_2 numeral_3_eq_3)

lemma sample_outcomes_messages:
  "failuresHaveMessages
     (voteOutcomes sampleEnv (sampleCaller echo fails) p ss \<lparr>w_gateway = n, w_calls = cs\<rparr>)"
  by (induction ss arbitrary: n cs)
     (simp_all add: failuresHaveMessages_Nil failuresHaveMessages_Cons sample_vote)

lemma sample_run_result:
  assumes "\<not> fails ''delegate_to_model'' 0" and "\<not> fails ''create_expert'' 1"
    and "\<not> fails ''execute_expert'' 2"
  shows "fst (runShowdown sampleEnv (sampleCaller echo fails) world0 c)
         = Inr (projr (fst (runShowdown sampleEnv (sampleCaller echo fails) world0 c)))"
  using runShowdown_success [OF sample_run [OF assms, of echo c] sample_outcomes_messages]
  by auto

text \<open>
  On the sample gateway with every voting call failing with an \<open>Error\<close>: an empty list
  of results, agreement 0, five errors, and all eight calls made.
\<close>

lemma vote_failures_recorded_sample:
  "\<exists>r w'. runShowdown sampleEnv (sampleCaller True votesFail) world0 (sampleConfig ''Test'' None)
            = (Inr r, w')
     \<and> res_strategyResults r = [] \<and> res_strategyAgreement r = 0
     \<and> res_errors r =
         [''simple_majority vote failed: vote timeout'', ''supermajority vote failed: vote timeout'',
          ''unanimous vote failed: vote timeout'', ''proof_of_learning vote failed: vote timeout'',
          ''higher_order vote failed: vote timeout'']
     \<and> ''unanimous vote failed: vote timeout'' \<in> set (res_errors r)
     \<and> map fst (w_calls w') =
         [''delegate_to_model'', ''create_expert'', ''execute_expert'', ''consensus_vote'',
          ''consensus_vote'', ''consensus_vote'', ''consensus_vote'', ''consensus_vote'']"
proof -
  let ?c = "sampleConfig ''Test'' None"
  let ?call = "sampleCaller True votesFail"
  have f: "\<not> votesFail ''delegate_to_model'' 0" "\<not> votesFail ''create_expert'' 1"
    "\<not> votesFail ''execute_expert'' 2"
    by (simp_all add: votesFail_def)
  note st = sample_run [OF f, of True ?c]
  let ?w3 = "\<lparr>w_gateway = 3 :: nat,
              w_calls = [delegateCall ?c, createCall (requestedRole ?c),
                 executeCall (ce_expertId sampleExpert) (expertTask ?c sampleDelegation)]\<rparr>"
  let ?p = "buildProposal (numberToString sampleEnv) sampleDelegation (sampleExecution ''Vitest'')"
  have ss: "configuredStrategies ?c = VOTING_STRATEGIES"
    by (simp add: configuredStrategies_def sampleConfig_def)
  have os: "voteOutcomes sampleEnv ?call ?p VOTING_STRATEGIES ?w3
            = replicate 5 (Inl (newError ''vote timeout''))"
    by (simp add: VOTING_STRATEGIES_def sample_vote votesFail_def numeral_eq_Suc)
  have msgs: "failuresHaveMessages
      (replicate 5 (Inl (newError ''vote timeout'')) :: (thrown + VoteResponse) list)"
    by (simp add: failuresHaveMessages_def hasMessage_def numeral_eq_Suc)
  obtain r w' where
    r: "runShowdown sampleEnv ?call world0 ?c = (Inr r, w')"
      "res_errors r = failures VOTING_STRATEGIES (replicate 5 (Inl (newError ''vote timeout'')))"
      "\<forall>i t m. i < length VOTING_STRATEGIES
             \<and> replicate 5 (Inl (newError ''vote timeout'') :: thrown + VoteResponse) ! i
                 = Inl t \<and> errorMessage t = Inr m \<longrightarrow>
           strategyName (VOTING_STRATEGIES ! i) @ '' vote failed: '' @ m
             \<in> set (res_errors r)"
      "w_calls w' = w_calls ?w3 @ map (voteCall ?p) VOTING_STRATEGIES"
      "(\<forall>out \<in> set (replicate 5 (Inl (newError ''vote timeout'') :: thrown + VoteResponse)).
           isl out) \<longrightarrow>
         res_strategyResults r = [] \<and> res_strategyAgreement r = 0
         \<and> length (res_errors r) = length VOTING_STRATEGIES"
    using vote_failures_recorded [OF st ss [symmetric] refl os [symmetric] msgs] by blast
  have a: "res_strategyResults r = [] \<and> res_strategyAgreement r = 0"
    using r(5) by simp
  have "2 < length VOTING_STRATEGIES
        \<and> replicate 5 (Inl (newError ''vote timeout'') :: thrown + VoteResponse) ! 2
            = Inl (newError ''vote timeout'')
        \<and> errorMessage (newError ''vote timeout'') = Inr ''vote timeout''"
    by (simp add: VOTING_STRATEGIES_def)
  then have "strategyName (VOTING_STRATEGIES ! 2) @ '' vote failed: ''
               @ ''vote timeout'' \<in> set (res_errors r)"
    using r(3) by blast
  then have m: "''unanimous vote failed: vote timeout'' \<in> set (res_errors r)"
    by (simp add: VOTING_STRATEGIES_def)
  have b: "res_errors r =
         [''simple_majority vote failed: vote timeout'', ''supermajority vote failed: vote timeout'',
          ''unanimous vote failed: vote timeout'', ''proof_of_learning vote failed: vote timeout'',
          ''higher_order vote failed: vote timeout'']"
    unfolding r(2) by (simp add: failures_def VOTING_STRATEGIES_def numeral_eq_Suc)
  have c: "map fst (w_calls w') =
         [''delegate_to_model'', ''create_expert'', ''execute_expert'', ''consensus_vote'',
          ''consensus_vote'', ''consensus_vote'', ''consensus_vote'', ''consensus_vote'']"
    unfolding r(4)
    by (simp add: VOTING_STRATEGIES_def delegateCall_def createCall_def executeCall_def
        voteCall_def)
  show ?thesis
    using m by (intro exI [of _ r] exI [of _ w']) (simp add: r(1) a b c)
qed

text \<open>
  On the sample gateway with the third voting call failing (the case of the test
  \<open>captures vote errors without stopping\<close>): results and errors add up to 5.
\<close>

theorem results_and_errors_cover_strategies_witness:
  "\<exists>r. fst (runShowdown sampleEnv (sampleCaller False (callFails 5)) world0
              (sampleConfig ''Test'' None)) = Inr r
     \<and> length (res_strategyResults r) + length (res_errors r) = 5"
proof -
  have f: "\<not> callFails 5 ''delegate_to_model'' 0" "\<not> callFails 5 ''create_expert'' 1"
    "\<not> callFails 5 ''execute_expert'' 2"
    by (simp_all add: callFails_def)
  note r = sample_run_result [OF f, of False "sampleConfig ''Test'' None"]
  have "length (configuredStrategies (sampleConfig ''Test'' None)) = 5"
    by (simp add: configuredStrategies_def sampleConfig_def VOTING_STRATEGIES_def)
  with results_and_errors_cover_strategies [OF r] r show ?thesis by metis
qed

section \<open>The properties of the run on the sample gateway\<close>

text \<open>
  On the sample gateway: the eight calls of a default run with the strategies of its
  voting calls, and the two voting calls and two results of a run with two strategies.
\<close>

theorem invocation_order_witness:
  "map fst (w_calls (snd (runShowdown sampleEnv (sampleCaller True neverFails) world0
       (sampleConfig ''Test'' None)))) =
     [''delegate_to_model'', ''create_expert'', ''execute_expert'', ''consensus_vote'',
      ''consensus_vote'', ''consensus_vote'', ''consensus_vote'', ''consensus_vote'']
   \<and> map (\<lambda>c. map_of (snd c) ''strategy'')
        (drop 3 (w_calls (snd (runShowdown sampleEnv (sampleCaller True neverFails) world0
           (sampleConfig ''Test'' None))))) =
     [Some ''simple_majority'', Some ''supermajority'', Some ''unanimous'',
      Some ''proof_of_learning'', Some ''higher_order'']
   \<and> map strategyName (configuredStrategies (sampleConfig ''Test'' None)) =
     [''simple_majority'', ''supermajority'', ''unanimous'', ''proof_of_learning'',
      ''higher_order'']
   \<and> map (\<lambda>c. map_of (snd c) ''strategy'')
        (drop 3 (w_calls (snd (runShowdown sampleEnv (sampleCaller True neverFails) world0
           (sampleConfig ''Test'' (Some [simple_majority, unanimous])))))) =
     [Some ''simple_majority'', Some ''unanimous'']
   \<and> length (res_strategyResults (projr (fst (runShowdown sampleEnv
        (sampleCaller True neverFails) world0
        (sampleConfig ''Test'' (Some [simple_majority, unanimous])))))) = 2"
proof -
  let ?call = "sampleCaller True neverFails"
  have f: "\<not> neverFails ''delegate_to_model'' 0" "\<not> neverFails ''create_expert'' 1"
    "\<not> neverFails ''execute_expert'' 2"
    by (simp_all add: neverFails_def)
  have one: "map fst (w_calls (snd (runShowdown sampleEnv ?call world0 (sampleConfig ''Test'' ss))))
       = [''delegate_to_model'', ''create_expert'', ''execute_expert'']
         @ replicate (length (configuredStrategies (sampleConfig ''Test'' ss))) ''consensus_vote''
     \<and> map (\<lambda>c. map_of (snd c) ''strategy'')
         (drop 3 (w_calls (snd (runShowdown sampleEnv ?call world0 (sampleConfig ''Test'' ss)))))
       = map (\<lambda>s. Some (strategyName s)) (configuredStrategies (sampleConfig ''Test'' ss))" for ss
  proof -
    let ?c = "sampleConfig ''Test'' ss"
    note r = sample_run_result [OF f, of True ?c]
    show ?thesis
      using invocation_order [OF r, THEN conjunct1]
      by (auto simp add: world0_def delegateCall_def createCall_def executeCall_def voteCall_def
          comp_def map_replicate_const)
  qed
  have dflt: "configuredStrategies (sampleConfig ''Test'' None) = VOTING_STRATEGIES"
    by (simp add: configuredStrategies_def sampleConfig_def)
  have two: "configuredStrategies (sampleConfig ''Test'' (Some [simple_majority, unanimous]))
       = [simple_majority, unanimous]"
    by (simp add: configuredStrategies_def sampleConfig_def)
  let ?c2 = "sampleConfig ''Test'' (Some [simple_majority, unanimous])"
  let ?r2 = "projr (fst (runShowdown sampleEnv ?call world0 ?c2))"
  note r2 = sample_run_result [OF f, of True ?c2]
  have nf: "\<not> neverFails tool n" for tool n
    by (simp add: neverFails_def)
  have "res_errors ?r2 =
          failures (configuredStrategies ?c2)
            (voteOutcomes sampleEnv ?call
              (buildProposal (numberToString sampleEnv) sampleDelegation (sampleExecution ''Vitest''))
              (configuredStrategies ?c2)
              \<lparr>w_gateway = 3,
                w_calls = [delegateCall ?c2, createCall (requestedRole ?c2),
                   executeCall (ce_expertId sampleExpert) (expertTask ?c2 sampleDelegation)]\<rparr>)"
    using runShowdown_success [OF sample_run [OF f, of True ?c2] sample_outcomes_messages]
    by auto
  also have "\<dots> = []"
    by (simp add: two failures_def sample_vote nf)
  finally have noerr: "res_errors ?r2 = []" .
  have "cfg_strategies ?c2 = Some [simple_majority, unanimous]"
    by (simp add: sampleConfig_def)
  then have len2: "length (res_strategyResults ?r2) = 2"
    using invocation_order [OF r2, THEN conjunct2, THEN conjunct2] noerr by simp
  have "cfg_strategies (sampleConfig ''Test'' None) = None"
    by (simp add: sampleConfig_def)
  then have names: "map strategyName (configuredStrategies (sampleConfig ''Test'' None)) =
     [''simple_majority'', ''supermajority'', ''unanimous'', ''proof_of_learning'',
      ''higher_order'']"
    by (rule invocation_order [OF sample_run_result [OF f, of True "sampleConfig ''Test'' None"],
          THEN conjunct2, THEN conjunct1, THEN mp])
  show ?thesis
    using one [of None] one [of "Some [simple_majority, unanimous]"] len2 names
    by (simp add: dflt two VOTING_STRATEGIES_def)
qed

text \<open>
  On the sample gateway with the first, the second or the third call throwing, and on a
  gateway whose data no schema accepts: the run fails with the thrown value after one, two,
  three and one calls.
\<close>

theorem fatal_failures_propagate_witness:
  "fst (runShowdown sampleEnv (sampleCaller True (callFails 0)) world0 (sampleConfig ''Test'' None))
     = Inl (newError ''vote timeout'')
   \<and> map fst (w_calls (snd (runShowdown sampleEnv (sampleCaller True (callFails 0)) world0
        (sampleConfig ''Test'' None)))) = [''delegate_to_model'']
   \<and> fst (runShowdown sampleEnv (sampleCaller True (callFails 1)) world0 (sampleConfig ''Test'' None))
     = Inl (newError ''vote timeout'')
   \<and> map fst (w_calls (snd (runShowdown sampleEnv (sampleCaller True (callFails 1)) world0
        (sampleConfig ''Test'' None)))) = [''delegate_to_model'', ''create_expert'']
   \<and> fst (runShowdown sampleEnv (sampleCaller True (callFails 2)) world0 (sampleConfig ''Test'' None))
     = Inl (newError ''vote timeout'')
   \<and> map fst (w_calls (snd (runShowdown sampleEnv (sampleCaller True (callFails 2)) world0
        (sampleConfig ''Test'' None))))
     = [''delegate_to_model'', ''create_expert'', ''execute_expert'']
   \<and> ''consensus_vote'' \<notin> fst ` set (w_calls (snd (runShowdown sampleEnv
         (sampleCaller True (callFails 2)) world0 (sampleConfig ''Test'' None))))
   \<and> fst (runShowdown sampleEnv junkCaller world0 (sampleConfig ''Test'' None))
     = Inl (newError ''invalid'')
   \<and> map fst (w_calls (snd (runShowdown sampleEnv junkCaller world0 (sampleConfig ''Test'' None))))
     = [''delegate_to_model'']"
proof -
  let ?c = "sampleConfig ''Test'' None"
  let ?t = "newError ''vote timeout''"
  let ?w1 = "\<lparr>w_gateway = 1 :: nat, w_calls = [delegateCall ?c]\<rparr>"
  let ?w2 = "\<lparr>w_gateway = 2 :: nat, w_calls = [delegateCall ?c, createCall (requestedRole ?c)]\<rparr>"
  let ?w3 = "\<lparr>w_gateway = 3 :: nat,
              w_calls = [delegateCall ?c, createCall (requestedRole ?c),
                 executeCall (ce_expertId sampleExpert) (expertTask ?c sampleDelegation)]\<rparr>"
  have d0: "delegateTask sampleEnv (sampleCaller True (callFails 0)) world0 (cfg_task ?c)
             (map_option capabilityName (cfg_preferredCapability ?c)) = (Inl ?t, ?w1)"
    using sample_step_fails(1) [of "callFails 0" 0 True "[]" ?c]
    by (simp add: callFails_def world0_def)
  have a: "runShowdown sampleEnv (sampleCaller True (callFails 0)) world0 ?c = (Inl ?t, ?w1)"
    by (rule fatal_failures_propagate [of sampleEnv "sampleCaller True (callFails 0)" world0 ?c ?t ?w1,
          THEN conjunct1, THEN mp, OF d0, THEN conjunct1])
  have d1: "delegateTask sampleEnv (sampleCaller True (callFails k)) world0 (cfg_task ?c)
             (map_option capabilityName (cfg_preferredCapability ?c)) = (Inr sampleDelegation, ?w1)"
    if "k \<noteq> 0" for k
    using sample_delegate [of "callFails k" 0 True "[]" ?c] that
    by (simp add: callFails_def world0_def)
  have x1: "createExpert sampleEnv (sampleCaller True (callFails 1)) ?w1 (requestedRole ?c)
            = (Inl ?t, ?w2)"
    using sample_step_fails(2) [of "callFails 1" 1 True "[delegateCall ?c]" "requestedRole ?c"]
    by (simp add: callFails_def numeral_2_eq_2)
  have b: "runShowdown sampleEnv (sampleCaller True (callFails 1)) world0 ?c = (Inl ?t, ?w2)"
    by (rule fatal_failures_propagate [of sampleEnv "sampleCaller True (callFails 1)" world0 ?c ?t ?w1
          sampleDelegation ?w2, THEN conjunct2, THEN conjunct1, THEN mp,
          OF conjI [OF d1 [of 1] x1], THEN conjunct1]) simp
  have x2: "createExpert sampleEnv (sampleCaller True (callFails 2)) ?w1 (requestedRole ?c)
            = (Inr sampleExpert, ?w2)"
    using sample_create [of "callFails 2" 1 True "[delegateCall ?c]" "requestedRole ?c"]
    by (simp add: callFails_def numeral_2_eq_2)
  have e2: "executeExpert sampleEnv (sampleCaller True (callFails 2)) ?w2
              (ce_expertId sampleExpert) (expertTask ?c sampleDelegation) = (Inl ?t, ?w3)"
    using sample_step_fails(3) [of "callFails 2" 2 True
        "[delegateCall ?c, createCall (requestedRole ?c)]"
        "ce_expertId sampleExpert" "expertTask ?c sampleDelegation"]
    by (simp add: callFails_def numeral_3_eq_3)
  have c: "runShowdown sampleEnv (sampleCaller True (callFails 2)) world0 ?c = (Inl ?t, ?w3)"
    by (rule fatal_failures_propagate [of sampleEnv "sampleCaller True (callFails 2)" world0 ?c ?t ?w1
          sampleDelegation ?w2 sampleExpert ?w3, THEN conjunct2, THEN conjunct2, THEN conjunct1,
          THEN mp, OF conjI [OF d1 [of 2] conjI [OF x2 e2]], THEN conjunct1]) simp
  have dj: "delegateTask sampleEnv junkCaller world0 (cfg_task ?c)
             (map_option capabilityName (cfg_preferredCapability ?c))
            = (Inl (newError ''invalid''), ?w1)"
    by (simp add: delegateTask_def callTool_def junkCaller_def sampleEnv_def world0_def
        delegateCall_def sampleConfig_def)
  have j: "runShowdown sampleEnv junkCaller world0 ?c = (Inl (newError ''invalid''), ?w1)"
    by (rule fatal_failures_propagate [of sampleEnv junkCaller world0 ?c "newError ''invalid''" ?w1,
          THEN conjunct1, THEN mp, OF dj, THEN conjunct1])
  have "fst (runShowdown sampleEnv (sampleCaller True (callFails 2)) world0 ?c) = Inl ?t"
    by (simp add: c)
  then have "(\<forall>k \<in> set (drop (length (w_calls world0))
                 (w_calls (snd (runShowdown sampleEnv (sampleCaller True (callFails 2)) world0 ?c)))).
               fst k \<noteq> ''consensus_vote'')
       \<or> (\<exists>d w1 x w2 e w3.
             delegateTask sampleEnv (sampleCaller True (callFails 2)) world0 (cfg_task ?c)
               (map_option capabilityName (cfg_preferredCapability ?c)) = (Inr d, w1)
           \<and> createExpert sampleEnv (sampleCaller True (callFails 2)) w1 (requestedRole ?c)
               = (Inr x, w2)
           \<and> executeExpert sampleEnv (sampleCaller True (callFails 2)) w2 (ce_expertId x)
                (expertTask ?c d) = (Inr e, w3)
           \<and> fst (voteLoop sampleEnv (sampleCaller True (callFails 2))
                     (buildProposal (numberToString sampleEnv) d e)
                     (configuredStrategies ?c) [] [] w3) = Inl ?t)"
    by (rule fatal_failures_propagate [of sampleEnv "sampleCaller True (callFails 2)" world0 ?c ?t,
          THEN conjunct2, THEN conjunct2, THEN conjunct2, THEN conjunct1, THEN mp])
  moreover have "\<not> (\<exists>d w1 x w2 e w3.
             delegateTask sampleEnv (sampleCaller True (callFails 2)) world0 (cfg_task ?c)
               (map_option capabilityName (cfg_preferredCapability ?c)) = (Inr d, w1)
           \<and> createExpert sampleEnv (sampleCaller True (callFails 2)) w1 (requestedRole ?c)
               = (Inr x, w2)
           \<and> executeExpert sampleEnv (sampleCaller True (callFails 2)) w2 (ce_expertId x)
                (expertTask ?c d) = (Inr e, w3)
           \<and> fst (voteLoop sampleEnv (sampleCaller True (callFails 2))
                     (buildProposal (numberToString sampleEnv) d e)
                     (configuredStrategies ?c) [] [] w3) = Inl ?t)"
    using d1 [of 2] x2 e2 by auto
  ultimately have "\<forall>k \<in> set (drop (length (w_calls world0))
                 (w_calls (snd (runShowdown sampleEnv (sampleCaller True (callFails 2)) world0 ?c)))).
               fst k \<noteq> ''consensus_vote''"
    by blast
  then have n: "''consensus_vote'' \<notin> fst ` set (w_calls (snd (runShowdown sampleEnv
         (sampleCaller True (callFails 2)) world0 ?c)))"
    by (auto simp add: world0_def)
  show ?thesis
    using n unfolding a b c j by (simp add: delegateCall_def createCall_def executeCall_def)
qed

text \<open>
  Claim C9 as stated fails in two ways. A gateway that reports \<open>simple_majority\<close> for
  every vote (the caller of the test \<open>captures vote errors without stopping\<close>) gives
  five entries with that one strategy in a default run; and a configuration that names
  \<open>unanimous\<close> twice gives two entries with it on a gateway that reports what it was
  asked.
\<close>

theorem strategies_repeated_counterexample:
  "\<not> isl (fst (runShowdown sampleEnv (sampleCaller False neverFails) world0
              (sampleConfig ''Test'' None)))
   \<and> \<not> distinct (map sr_strategy (res_strategyResults (projr (fst
         (runShowdown sampleEnv (sampleCaller False neverFails) world0
            (sampleConfig ''Test'' None))))))
   \<and> \<not> isl (fst (runShowdown sampleEnv (sampleCaller True neverFails) world0
              (sampleConfig ''Test'' (Some [unanimous, unanimous]))))
   \<and> \<not> distinct (map sr_strategy (res_strategyResults (projr (fst
         (runShowdown sampleEnv (sampleCaller True neverFails) world0
            (sampleConfig ''Test'' (Some [unanimous, unanimous])))))))"
  by code_simp

text \<open>
  On the sample gateway that reports the strategy it was asked for, a default run has the
  five strategies once each.
\<close>

theorem strategies_distinct_when_echoed_witness:
  "\<exists>r w'. runShowdown sampleEnv (sampleCaller True neverFails) world0 (sampleConfig ''Test'' None)
            = (Inr r, w')
     \<and> map sr_strategy (res_strategyResults r) =
         [''simple_majority'', ''supermajority'', ''unanimous'', ''proof_of_learning'',
          ''higher_order'']
     \<and> distinct (map sr_strategy (res_strategyResults r))"
proof -
  let ?c = "sampleConfig ''Test'' None"
  let ?call = "sampleCaller True neverFails"
  have f: "\<not> neverFails ''delegate_to_model'' 0" "\<not> neverFails ''create_expert'' 1"
    "\<not> neverFails ''execute_expert'' 2"
    by (simp_all add: neverFails_def)
  have nf: "\<not> neverFails tool n" for tool n
    by (simp add: neverFails_def)
  note st = sample_run [OF f, of True ?c]
  let ?w3 = "\<lparr>w_gateway = 3 :: nat,
              w_calls = [delegateCall ?c, createCall (requestedRole ?c),
                 executeCall (ce_expertId sampleExpert) (expertTask ?c sampleDelegation)]\<rparr>"
  let ?p = "buildProposal (numberToString sampleEnv) sampleDelegation (sampleExecution ''Vitest'')"
  let ?os = "[Inr (sampleVote ''simple_majority'' approved),
              Inr (sampleVote ''supermajority'' approved),
              Inr (sampleVote ''unanimous'' rejected),
              Inr (sampleVote ''proof_of_learning'' approved),
              Inr (sampleVote ''higher_order'' approved)] :: (thrown + VoteResponse) list"
  have ss: "configuredStrategies ?c = VOTING_STRATEGIES"
    by (simp add: configuredStrategies_def sampleConfig_def)
  have os: "voteOutcomes sampleEnv ?call ?p VOTING_STRATEGIES ?w3 = ?os"
    by (simp add: VOTING_STRATEGIES_def sample_vote nf)
  have dist: "distinct VOTING_STRATEGIES"
    by (simp add: VOTING_STRATEGIES_def)
  have echo: "\<forall>(s, out) \<in> set (zip VOTING_STRATEGIES ?os).
                \<forall>v. out = Inr v \<longrightarrow> vr_strategy v = strategyName s"
    by (simp add: VOTING_STRATEGIES_def sampleVote_def)
  have msgs: "failuresHaveMessages ?os"
    by (rule failuresHaveMessages_all_succeed) simp
  note t = strategies_distinct_when_echoed [OF st ss [symmetric] os [symmetric]]
  obtain r w' where run: "runShowdown sampleEnv ?call world0 ?c = (Inr r, w')"
    using t [THEN conjunct1, THEN mp, OF msgs] by blast
  then have "fst (runShowdown sampleEnv ?call world0 ?c) = Inr r"
    by simp
  then have r: "map sr_strategy (res_strategyResults r)
          = map (\<lambda>out. vr_strategy (projr out)) (filter (\<lambda>out. \<not> isl out) ?os)
       \<and> (distinct VOTING_STRATEGIES
         \<and> (\<forall>(s, out) \<in> set (zip VOTING_STRATEGIES ?os).
               \<forall>v. out = Inr v \<longrightarrow> vr_strategy v = strategyName s)
         \<longrightarrow> distinct (map sr_strategy (res_strategyResults r)))"
    by (rule t [THEN conjunct2, THEN spec, THEN mp])
  have a: "map sr_strategy (res_strategyResults r) =
         [''simple_majority'', ''supermajority'', ''unanimous'', ''proof_of_learning'',
          ''higher_order'']"
    unfolding r [THEN conjunct1] by (simp add: sampleVote_def)
  have b: "distinct (map sr_strategy (res_strategyResults r))"
    using r [THEN conjunct2] dist echo by (rule mp [OF _ conjI])
  have five: "distinct [''simple_majority'', ''supermajority'', ''unanimous'',
                ''proof_of_learning'', ''higher_order'']"
    using b unfolding a .
  show ?thesis
    by (rule exI [of _ r], rule exI [of _ w']) (simp only: run a five simp_thms)
qed

text \<open>
  On the sample gateway the task \<open>Security audit of auth module\<close> asks for a
  \<open>security_expert\<close>, the response reports a \<open>code_expert\<close>, and the evaluation has
  \<open>code_expert\<close> (the case of the test \<open>infers expert role from task\<close>).
\<close>

theorem expertRole_from_creation_response_witness:
  "ev_expertRole (res_evaluation (projr (fst (runShowdown sampleEnv (sampleCaller True neverFails)
       world0 (sampleConfig ''Security audit of auth module'' None))))) = ''code_expert''
   \<and> requestedRole (sampleConfig ''Security audit of auth module'' None) = ''security_expert''"
proof -
  let ?c = "sampleConfig ''Security audit of auth module'' None"
  have f: "\<not> neverFails ''delegate_to_model'' 0" "\<not> neverFails ''create_expert'' 1"
    "\<not> neverFails ''execute_expert'' 2"
    by (simp_all add: neverFails_def)
  note st = sample_run [OF f, of True ?c]
  note r = sample_run_result [OF f, of True ?c]
  have "ev_expertRole (res_evaluation (projr (fst (runShowdown sampleEnv
           (sampleCaller True neverFails) world0 ?c)))) = ce_role sampleExpert"
    by (rule expertRole_from_creation_response [OF st(1) st(2) r, THEN conjunct1])
  then have a: "ev_expertRole (res_evaluation (projr (fst (runShowdown sampleEnv
           (sampleCaller True neverFails) world0 ?c)))) = ''code_expert''"
    by (simp add: sampleExpert_def)
  have b: "requestedRole ?c = ''security_expert''"
    by (simp add: requestedRole_def sampleConfig_def inferExpertRole_audit)
  from a b show ?thesis by (rule conjI)
qed

text \<open>
  Claim C1, at an input where the code departs from it. The gateway answers the three
  first steps and rejects the first voting call with \<open>Object.create(null)\<close>. The
  \<open>catch\<close> block takes the failure, but \<open>String(e)\<close> throws a \<open>TypeError\<close> while the
  block builds the message, and nothing encloses the block: \<open>runShowdown\<close> rejects with
  this \<open>TypeError\<close> and returns no result, no error string is recorded, and of the five
  configured strategies only \<open>simple_majority\<close> has been called. The claim has the
  failure recorded, the four other strategies called and a result returned.
\<close>

theorem unprintable_vote_failure_rejects:
  "fst (voteWithStrategy sampleEnv opaqueCaller
          \<lparr>w_gateway = 3,
            w_calls = [delegateCall (sampleConfig ''Test'' None),
               createCall (requestedRole (sampleConfig ''Test'' None)),
               executeCall (ce_expertId sampleExpert)
                 (expertTask (sampleConfig ''Test'' None) sampleDelegation)]\<rparr>
          (buildProposal (numberToString sampleEnv) sampleDelegation (sampleExecution ''Vitest''))
          simple_majority) = Inl nullPrototypeObject
   \<and> errorMessage nullPrototypeObject
       = Inl (newError ''Cannot convert object to primitive value'')
   \<and> fst (runShowdown sampleEnv opaqueCaller world0 (sampleConfig ''Test'' None))
       = Inl (newError ''Cannot convert object to primitive value'')
   \<and> w_calls (snd (runShowdown sampleEnv opaqueCaller world0 (sampleConfig ''Test'' None)))
       = [delegateCall (sampleConfig ''Test'' None),
          createCall (requestedRole (sampleConfig ''Test'' None)),
          executeCall (ce_expertId sampleExpert)
            (expertTask (sampleConfig ''Test'' None) sampleDelegation),
          voteCall (buildProposal (numberToString sampleEnv) sampleDelegation
                      (sampleExecution ''Vitest'')) simple_majority]
   \<and> configuredStrategies (sampleConfig ''Test'' None)
       = [simple_majority, supermajority, unanimous, proof_of_learning, higher_order]"
proof -
  let ?c = "sampleConfig ''Test'' None"
  let ?p = "buildProposal (numberToString sampleEnv) sampleDelegation (sampleExecution ''Vitest'')"
  let ?w3 = "\<lparr>w_gateway = 3 :: nat,
              w_calls = [delegateCall ?c, createCall (requestedRole ?c),
                 executeCall (ce_expertId sampleExpert) (expertTask ?c sampleDelegation)]\<rparr>"
  have f: "\<not> neverFails ''delegate_to_model'' 0" "\<not> neverFails ''create_expert'' 1"
    "\<not> neverFails ''execute_expert'' 2"
    by (simp_all add: neverFails_def)
  have same: "tool \<noteq> ''consensus_vote'' \<Longrightarrow>
      callTool opaqueCaller w' tool as = callTool (sampleCaller True neverFails) w' tool as"
    for tool as and w' :: "nat world"
    by (simp add: callTool_def opaqueCaller_def)
  have st: "delegateTask sampleEnv opaqueCaller world0 (cfg_task ?c)
              (map_option capabilityName (cfg_preferredCapability ?c))
            = (Inr sampleDelegation, \<lparr>w_gateway = 1, w_calls = [delegateCall ?c]\<rparr>)"
    "createExpert sampleEnv opaqueCaller \<lparr>w_gateway = 1, w_calls = [delegateCall ?c]\<rparr>
       (requestedRole ?c)
     = (Inr sampleExpert,
        \<lparr>w_gateway = 2, w_calls = [delegateCall ?c, createCall (requestedRole ?c)]\<rparr>)"
    "executeExpert sampleEnv opaqueCaller
       \<lparr>w_gateway = 2, w_calls = [delegateCall ?c, createCall (requestedRole ?c)]\<rparr>
       (ce_expertId sampleExpert) (expertTask ?c sampleDelegation)
     = (Inr (sampleExecution ''Vitest''), ?w3)"
    using sample_run [OF f, of True ?c]
    by (simp_all add: delegateTask_def createExpert_def executeExpert_def same)
  have v: "voteWithStrategy sampleEnv opaqueCaller ?w3 ?p simple_majority
           = (Inl nullPrototypeObject,
              \<lparr>w_gateway = 4, w_calls = w_calls ?w3 @ [voteCall ?p simple_majority]\<rparr>)"
    by (simp add: voteWithStrategy_def callTool_def opaqueCaller_def voteCall_def)
  have m: "errorMessage nullPrototypeObject
           = Inl (newError ''Cannot convert object to primitive value'')"
    by (simp add: nullPrototypeObject_def)
  have ss: "configuredStrategies ?c
            = [simple_majority, supermajority, unanimous, proof_of_learning, higher_order]"
    by (simp add: configuredStrategies_def sampleConfig_def VOTING_STRATEGIES_def)
  have run: "runShowdown sampleEnv opaqueCaller world0 ?c
             = (Inl (newError ''Cannot convert object to primitive value''),
                \<lparr>w_gateway = 4, w_calls = w_calls ?w3 @ [voteCall ?p simple_majority]\<rparr>)"
    by (simp add: runShowdown_votes [OF st] ss v m)
  show ?thesis
    unfolding run v by (simp add: m ss)
qed

end
